theory Spec2Isabelle
  imports Complex_Main "HOL-Library.Sublist" "HOL-Library.AList" "HOL-Library.Log_Nat"
begin

section \<open>Python strings\<close>

text \<open>
  A Python \<open>str\<close> is modelled as a \<open>string\<close>; a \<open>char\<close> stands for the code point of
  the same number (0 to 255). Text with code points beyond 255 is outside the model.
\<close>

text \<open>\<open>sub in s\<close>: the substring test.\<close>

fun py_contains :: "string \<Rightarrow> string \<Rightarrow> bool" where
  "py_contains sub [] = (sub = [])"
| "py_contains sub (c # cs) = (prefix sub (c # cs) \<or> py_contains sub cs)"

text \<open>
  The text before and after the leftmost occurrence of \<open>sep\<close>, or \<open>None\<close> when there
  is none. Both splitting functions below cut at it.
\<close>

fun split_first :: "string \<Rightarrow> string \<Rightarrow> (string \<times> string) option" where
  "split_first sep [] = (if sep = [] then Some ([], []) else None)"
| "split_first sep (c # cs) =
     (if prefix sep (c # cs) then Some ([], drop (length sep) (c # cs))
      else (case split_first sep cs of
              None \<Rightarrow> None
            | Some (a, b) \<Rightarrow> Some (c # a, b)))"

lemma split_first_shorter:
  "split_first sep s = Some (a, b) \<Longrightarrow> sep \<noteq> [] \<Longrightarrow> length b < length s"
proof (induction s arbitrary: a b)
  case Nil
  then show ?case by simp
next
  case (Cons c cs)
  show ?case
  proof (cases "prefix sep (c # cs)")
    case True
    with Cons.prems show ?thesis by (cases sep) auto
  next
    case False
    with Cons.prems obtain a' where "split_first sep cs = Some (a', b)"
      by (auto split: option.splits)
    with Cons.IH Cons.prems(2) show ?thesis by fastforce
  qed
qed

text \<open>
  \<open>s.split(sep)\<close> for a non-empty separator (Python raises \<open>ValueError\<close> for an empty
  one; every separator of the program is a non-empty literal).
\<close>

function py_split :: "string \<Rightarrow> string \<Rightarrow> string list" where
  "py_split sep s =
     (if sep = [] then [s]
      else (case split_first sep s of
              None \<Rightarrow> [s]
            | Some (a, b) \<Rightarrow> a # py_split sep b))"
  by pat_completeness auto
termination
  by (relation "measure (\<lambda>(sep, s). length s)") (auto dest: split_first_shorter)

declare py_split.simps [simp del]

text \<open>\<open>s.split(sep, 1)\<close>: at most one cut.\<close>

definition py_split1 :: "string \<Rightarrow> string \<Rightarrow> string list" where
  "py_split1 sep s =
     (case split_first sep s of
        None \<Rightarrow> [s]
      | Some (a, b) \<Rightarrow> [a, b])"

text \<open>\<open>sep.join(xs)\<close>.\<close>

fun py_join :: "string \<Rightarrow> string list \<Rightarrow> string" where
  "py_join sep [] = []"
| "py_join sep [x] = x"
| "py_join sep (x # y # ys) = x @ sep @ py_join sep (y # ys)"

text \<open>
  \<open>s.replace(old, new)\<close> for a non-empty \<open>old\<close>: every occurrence, leftmost first,
  none overlapping.
\<close>

fun py_replace :: "string \<Rightarrow> string \<Rightarrow> string \<Rightarrow> string" where
  "py_replace old new [] = []"
| "py_replace old new (c # cs) =
     (if old \<noteq> [] \<and> prefix old (c # cs)
      then new @ py_replace old new (drop (length old) (c # cs))
      else c # py_replace old new cs)"

text \<open>
  Whitespace. \<open>str.strip\<close>, \<open>str.isspace\<close> and the pattern \<open>\s\<close> take the code points
  9 to 13, 28 to 32, 133 and 160 for whitespace; \<open>int\<close> and \<open>float\<close> strip the same
  ones but 28 to 31 from the ends of their argument.
\<close>

definition is_space :: "char \<Rightarrow> bool" where
  "is_space c = ((of_char c :: nat) \<in> {9, 10, 11, 12, 13, 28, 29, 30, 31, 32, 133, 160})"

definition is_num_space :: "char \<Rightarrow> bool" where
  "is_num_space c = ((of_char c :: nat) \<in> {9, 10, 11, 12, 13, 32, 133, 160})"

definition strip_with :: "(char \<Rightarrow> bool) \<Rightarrow> string \<Rightarrow> string" where
  "strip_with P s = rev (dropWhile P (rev (dropWhile P s)))"

definition py_strip :: "string \<Rightarrow> string" where
  "py_strip s = strip_with is_space s"

text \<open>Decimal digits: below code point 256 these are \<open>0\<close> to \<open>9\<close> only.\<close>

definition is_digit :: "char \<Rightarrow> bool" where
  "is_digit c = (c \<in> set ''0123456789'')"

definition digit_val :: "char \<Rightarrow> nat" where
  "digit_val c = of_char c - 48"

definition nat_of_digits :: "string \<Rightarrow> nat" where
  "nat_of_digits ds = foldl (\<lambda>a c. 10 * a + digit_val c) 0 ds"

text \<open>\<open>str(n)\<close> for an integer, as the f-strings of the program print it.\<close>

fun str_of_nat :: "nat \<Rightarrow> string" where
  "str_of_nat n =
     (if n < 10 then [''0123456789'' ! n]
      else str_of_nat (n div 10) @ [''0123456789'' ! (n mod 10)])"

declare str_of_nat.simps [simp del]

definition str_of_int :: "int \<Rightarrow> string" where
  "str_of_int i = (if i < 0 then CHR ''-'' # str_of_nat (nat (- i)) else str_of_nat (nat i))"

section \<open>Python numbers\<close>

text \<open>
  The exceptions the program can meet: its own \<open>Exception\<close> with a message, a fault of
  the HTTP client (a connection that fails, a timeout; named by its description), and
  those of the built-in conversions and of a dictionary lookup.
\<close>

type_synonym fault = string

datatype error = PyException string | TransportFault fault | ValueError | OverflowError | KeyError

text \<open>
  \<open>int(s)\<close> and \<open>float(s)\<close> allow one underscore between two digits. The check runs
  over the stripped text with the previous character in hand, as the interpreter's does.
\<close>

fun underscores_ok :: "char \<Rightarrow> string \<Rightarrow> bool" where
  "underscores_ok prev [] = (prev \<noteq> CHR ''_'')"
| "underscores_ok prev (c # cs) =
     ((if c = CHR ''_'' then is_digit prev else prev = CHR ''_'' \<longrightarrow> is_digit c)
      \<and> underscores_ok c cs)"

definition take_sign :: "string \<Rightarrow> bool \<times> string" where
  "take_sign s =
     (case s of
        [] \<Rightarrow> (False, [])
      | c # cs \<Rightarrow>
          if c = CHR ''-'' then (True, cs)
          else if c = CHR ''+'' then (False, cs)
          else (False, c # cs))"

text \<open>
  \<open>int(s)\<close> in base ten: whitespace at the ends, one optional sign, digits. The
  interpreter refuses a text of more than 4300 digits (its default limit for the
  conversion).
\<close>

definition int_max_str_digits :: nat where
  "int_max_str_digits = 4300"

definition py_int_of_str :: "string \<Rightarrow> error + int" where
  "py_int_of_str s =
     (let (neg, u) = take_sign (strip_with is_num_space s);
          ds = filter (\<lambda>c. c \<noteq> CHR ''_'') u
      in if underscores_ok (CHR 0x00) u \<and> ds \<noteq> [] \<and> list_all is_digit ds
            \<and> length ds \<le> int_max_str_digits
         then Inr (if neg then - int (nat_of_digits ds) else int (nat_of_digits ds))
         else Inl ValueError)"

text \<open>
  A \<open>float\<close> is an IEEE 754 binary64 number: a finite one is given by its exact value,
  a rational. The sign of zero is not kept: nothing the program does with a float
  (a product with a positive constant, then \<open>int\<close>) can tell the two zeros apart.
\<close>

datatype pyfloat = Finite rat | PInf | NInf | NaN

definition pow2 :: "int \<Rightarrow> rat" where
  "pow2 e = 2 powi e"

definition pow10 :: "int \<Rightarrow> rat" where
  "pow10 e = 10 powi e"

text \<open>
  The binary exponent of a positive rational: \<open>2 powi ilog2 q \<le> q < 2 powi (ilog2 q + 1)\<close>
  (lemma \<open>ilog2_bounds\<close> below).
\<close>

definition ilog2 :: "rat \<Rightarrow> int" where
  "ilog2 q =
     (let (n, d) = quotient_of q;
          e0 = bitlen n - bitlen d
      in if pow2 e0 \<le> q then e0 else e0 - 1)"

text \<open>
  Rounding to the nearest double, ties to the even mantissa: 53 bits of mantissa for a
  normal number, the fixed quantum \<open>2 powi - 1074\<close> for a subnormal one, infinity from
  \<open>2 powi 1024\<close> on.
\<close>

definition round_half_even :: "rat \<Rightarrow> int" where
  "round_half_even x =
     (let f = \<lfloor>x\<rfloor>; r = x - of_int f
      in if r < 1 / 2 then f
         else if 1 / 2 < r then f + 1
         else if even f then f else f + 1)"

definition round_double :: "rat \<Rightarrow> pyfloat" where
  "round_double q =
     (if q = 0 then Finite 0
      else (let a = \<bar>q\<bar>;
                p = max (ilog2 a - 52) (- 1074);
                v = of_int (round_half_even (a / pow2 p)) * pow2 p
            in if pow2 1024 \<le> v then (if 0 < q then PInf else NInf)
               else Finite (if 0 < q then v else - v)))"

text \<open>
  \<open>x * y\<close> on floats, and the conversion of an integer operand (the program's are the
  constants 1000000 and 1000, which are doubles).
\<close>

fun float_mul :: "pyfloat \<Rightarrow> pyfloat \<Rightarrow> pyfloat" where
  "float_mul (Finite a) (Finite b) = round_double (a * b)"
| "float_mul NaN y = NaN"
| "float_mul x NaN = NaN"
| "float_mul (Finite a) PInf = (if a = 0 then NaN else if 0 < a then PInf else NInf)"
| "float_mul (Finite a) NInf = (if a = 0 then NaN else if 0 < a then NInf else PInf)"
| "float_mul PInf (Finite b) = (if b = 0 then NaN else if 0 < b then PInf else NInf)"
| "float_mul NInf (Finite b) = (if b = 0 then NaN else if 0 < b then NInf else PInf)"
| "float_mul PInf PInf = PInf"
| "float_mul PInf NInf = NInf"
| "float_mul NInf PInf = NInf"
| "float_mul NInf NInf = PInf"

definition float_of_int :: "int \<Rightarrow> pyfloat" where
  "float_of_int i = round_double (of_int i)"

text \<open>\<open>int(x)\<close> for a float: truncation toward zero.\<close>

definition to_zero :: "rat \<Rightarrow> int" where
  "to_zero x = (if 0 \<le> x then \<lfloor>x\<rfloor> else \<lceil>x\<rceil>)"

fun py_int_of_float :: "pyfloat \<Rightarrow> error + int" where
  "py_int_of_float (Finite x) = Inr (to_zero x)"
| "py_int_of_float PInf = Inl OverflowError"
| "py_int_of_float NInf = Inl OverflowError"
| "py_int_of_float NaN = Inl ValueError"

text \<open>
  \<open>float(s)\<close>: whitespace at the ends, underscores between digits, one optional sign,
  then \<open>inf\<close>, \<open>infinity\<close> or \<open>nan\<close> in any case, or digits with an optional point
  and an optional exponent. The decimal value is rounded once, to the nearest double.
\<close>

definition lower :: "char \<Rightarrow> char" where
  "lower c = (if (65::nat) \<le> of_char c \<and> of_char c \<le> (90::nat) then char_of (of_char c + (32::nat)) else c)"

definition parse_exponent :: "string \<Rightarrow> int option" where
  "parse_exponent r =
     (case r of
        [] \<Rightarrow> Some 0
      | c # cs \<Rightarrow>
          if c = CHR ''e'' \<or> c = CHR ''E'' then
            (let (neg, ds) = take_sign cs
             in if ds \<noteq> [] \<and> list_all is_digit ds
                then Some (if neg then - int (nat_of_digits ds) else int (nat_of_digits ds))
                else None)
          else None)"

definition parse_decimal :: "string \<Rightarrow> rat option" where
  "parse_decimal u =
     (let ip = takeWhile is_digit u;
          r1 = dropWhile is_digit u;
          (fp, r2) = (case r1 of
                        [] \<Rightarrow> ([], [])
                      | c # cs \<Rightarrow>
                          if c = CHR ''.'' then (takeWhile is_digit cs, dropWhile is_digit cs)
                          else ([], c # cs))
      in if ip = [] \<and> fp = [] then None
         else (case parse_exponent r2 of
                 None \<Rightarrow> None
               | Some e \<Rightarrow> Some (of_nat (nat_of_digits (ip @ fp)) * pow10 (e - int (length fp)))))"

definition py_float_of_str :: "string \<Rightarrow> error + pyfloat" where
  "py_float_of_str s =
     (let t = strip_with is_num_space s
      in if \<not> underscores_ok (CHR 0x00) t then Inl ValueError
         else (let (neg, u) = take_sign (filter (\<lambda>c. c \<noteq> CHR ''_'') t);
                   w = map lower u
               in if w = ''inf'' \<or> w = ''infinity'' then Inr (if neg then NInf else PInf)
                  else if w = ''nan'' then Inr NaN
                  else (case parse_decimal u of
                          None \<Rightarrow> Inl ValueError
                        | Some q \<Rightarrow> Inr (round_double (if neg then - q else q)))))"

section \<open>Python values and dictionaries\<close>

text \<open>The values the program stores in a record or tests for truth.\<close>

datatype pyval = PNone | PBool bool | PInt int | PStr string

fun truthy :: "pyval \<Rightarrow> bool" where
  "truthy PNone = False"
| "truthy (PBool b) = b"
| "truthy (PInt i) = (i \<noteq> 0)"
| "truthy (PStr s) = (s \<noteq> [])"

fun py_str :: "pyval \<Rightarrow> string" where
  "py_str PNone = ''None''"
| "py_str (PBool b) = (if b then ''True'' else ''False'')"
| "py_str (PInt i) = str_of_int i"
| "py_str (PStr s) = s"

text \<open>
  A \<open>dict\<close> keeps its keys in insertion order: an association list with distinct keys.
  Storing under a key that is there replaces the value in place, a new key goes to the
  end (\<open>AList.update\<close>).
\<close>

type_synonym pydict = "(string \<times> pyval) list"

definition dict_update :: "pydict \<Rightarrow> pydict \<Rightarrow> pydict" where
  "dict_update d other = fold (\<lambda>(k, v). AList.update k v) other d"

definition dict_literal :: "(string \<times> pyval) list \<Rightarrow> pydict" where
  "dict_literal items = dict_update [] items"

definition dict_get :: "pydict \<Rightarrow> string \<Rightarrow> error + pyval" where
  "dict_get d k = (case map_of d k of None \<Rightarrow> Inl KeyError | Some v \<Rightarrow> Inr v)"

text \<open>\<open>xs[:n]\<close>: a negative \<open>n\<close> counts from the end.\<close>

definition slice_to :: "'a list \<Rightarrow> int \<Rightarrow> 'a list" where
  "slice_to xs n = (if 0 \<le> n then take (nat n) xs else take (nat (int (length xs) + n)) xs)"

section \<open>Pages and the world outside\<close>

text \<open>
  One entry of the list page, as the extractors see it through the selectors:
  \<^item> \<open>title_tag\<close>: \<open>select_one("h3.ipc-title__text")\<close>, with its \<open>get_text(strip=True)\<close>;
  \<^item> \<open>metadata_items\<close>: the texts of \<open>select("span.cli-title-metadata-item")\<close>;
  \<^item> \<open>rating_tag\<close>, \<open>votes_tag\<close>: the rating and vote-count spans, with their text;
  \<^item> \<open>img_tag\<close>: \<open>select_one("img.ipc-image")\<close>, with its \<open>src\<close> attribute if it has one;
  \<^item> \<open>link_tag\<close>: \<open>select_one("a.ipc-title-link-wrapper")\<close>, with its \<open>href\<close> attribute
    if it has one.
  \<open>None\<close> is a selector that finds no node. A node found is truthy, whatever it holds.
\<close>

record movie_element =
  title_tag :: "string option"
  metadata_items :: "string list"
  rating_tag :: "string option"
  votes_tag :: "string option"
  img_tag :: "string option option"
  link_tag :: "string option option"

text \<open>
  A parsed document (\<open>BeautifulSoup(response.content, "lxml")\<close>), again through the
  selectors the program applies to it:
  \<^item> \<open>list_items\<close>: \<open>select("li.ipc-metadata-list-summary-item")\<close>;
  \<^item> \<open>genre_chips\<close>: the texts of \<open>select("a.ipc-chip span")\<close>;
  \<^item> \<open>runtime\<close>: the text of the \<open>title-techspec_runtime\<close> item;
  \<^item> \<open>director_links\<close>, \<open>writer_links\<close>, \<open>actor_links\<close>: the texts of the links whose
    address contains \<open>tt_ov_1\<close>, \<open>tt_ov_2\<close>, \<open>tt_ov_3\<close>;
  \<^item> \<open>plot_tag\<close>: the text of the \<open>plot-l\<close> span.
\<close>

record soup =
  list_items :: "movie_element list"
  genre_chips :: "string list"
  runtime :: "string option"
  director_links :: "string list"
  writer_links :: "string list"
  actor_links :: "string list"
  plot_tag :: "string option"

record response =
  status_code :: int
  content :: soup

text \<open>
  What the program does to the world, in order: the requests it sends, the pauses it
  takes, the lines it prints.
\<close>

datatype event = Get pyval "(string \<times> string) list" | Sleep nat | Print string

text \<open>
  The world: \<open>requests_get\<close> answers a request (address, headers) with a response or a
  fault, and may depend on all that happened before; \<open>list_of_set\<close> is the order in which
  the interpreter iterates over \<open>set(xs)\<close>, which Python leaves open.
\<close>

record world =
  requests_get :: "event list \<Rightarrow> pyval \<Rightarrow> (string \<times> string) list \<Rightarrow> fault + response"
  list_of_set :: "string list \<Rightarrow> string list"

section \<open>The scraper\<close>

definition URL :: string where
  "URL = ''https://www.imdb.com/chart/top/''"

definition BASE_URL :: string where
  "BASE_URL = ''https://www.imdb.com''"

definition HEADERS :: "(string \<times> string) list" where
  "HEADERS =
     [(''User-Agent'', ''Mozilla/5.0 (Windows NT 10.0; Win64; x64) AppleWebKit/537.36'')]"

text \<open>
  Functions with effects take the events so far and return them extended, with an
  error or a value: an exception ends the function with the events up to it.
\<close>

definition fetch_page ::
    "world \<Rightarrow> pyval \<Rightarrow> event list \<Rightarrow> event list \<times> (error + soup)" where
  "fetch_page w url tr =
     (case requests_get w tr url HEADERS of
        Inl fault \<Rightarrow> (tr @ [Get url HEADERS], Inl (TransportFault fault))
      | Inr response \<Rightarrow>
          if status_code response \<noteq> 200
          then (tr @ [Get url HEADERS],
                Inl (PyException (''Failed to fetch page. Status code: ''
                                   @ str_of_int (status_code response))))
          else (tr @ [Get url HEADERS], Inr (content response)))"

definition clean_votes :: "string \<Rightarrow> error + int option" where
  "clean_votes votes_text =
     (if votes_text = [] \<or> votes_text = ''N/A'' then Inr None
      else (let cleaned = py_strip (py_replace '')'' [] (py_replace ''('' [] votes_text))
            in if py_contains ''M'' cleaned then
                 (case py_float_of_str (py_replace '','' ''.'' (py_replace ''M'' [] cleaned)) of
                    Inl e \<Rightarrow> Inl e
                  | Inr number \<Rightarrow>
                      map_sum id Some
                        (py_int_of_float (float_mul number (float_of_int 1000000))))
               else if py_contains ''K'' cleaned then
                 (case py_float_of_str (py_replace '','' ''.'' (py_replace ''K'' [] cleaned)) of
                    Inl e \<Rightarrow> Inl e
                  | Inr number \<Rightarrow>
                      map_sum id Some
                        (py_int_of_float (float_mul number (float_of_int 1000))))
               else map_sum id Some
                      (py_int_of_str (py_replace ''.'' [] (py_replace '','' [] cleaned)))))"

text \<open>
  \<open>clean_title\<close>: \<open>not title_text\<close> holds for \<open>None\<close> and for the empty string.
\<close>

definition clean_title :: "string option \<Rightarrow> string" where
  "clean_title title_text =
     (case title_text of
        None \<Rightarrow> ''N/A''
      | Some t \<Rightarrow>
          if t = [] then ''N/A''
          else (let parts = py_split1 ''. '' t
                in if length parts > 1 then parts ! 1 else t))"

definition extract_movie_link :: "movie_element \<Rightarrow> string option" where
  "extract_movie_link movie_element =
     (case link_tag movie_element of
        Some attr \<Rightarrow>
          (let href = (case attr of Some h \<Rightarrow> h | None \<Rightarrow> [])
           in Some (BASE_URL @ hd (py_split ''?'' href)))
      | None \<Rightarrow> None)"

definition opt_str :: "string option \<Rightarrow> pyval" where
  "opt_str x = (case x of None \<Rightarrow> PNone | Some s \<Rightarrow> PStr s)"

definition opt_int :: "int option \<Rightarrow> pyval" where
  "opt_int x = (case x of None \<Rightarrow> PNone | Some i \<Rightarrow> PInt i)"

definition extract_basic_data :: "movie_element \<Rightarrow> error + pydict" where
  "extract_basic_data movie_element =
     (let raw_title = (case title_tag movie_element of Some t \<Rightarrow> t | None \<Rightarrow> ''N/A'');
          title = clean_title (Some raw_title);
          year = (case metadata_items movie_element of x # _ \<Rightarrow> x | [] \<Rightarrow> ''N/A'');
          rating = (case rating_tag movie_element of Some t \<Rightarrow> t | None \<Rightarrow> ''N/A'');
          votes_raw = (case votes_tag movie_element of Some t \<Rightarrow> t | None \<Rightarrow> ''N/A'')
      in case clean_votes votes_raw of
           Inl e \<Rightarrow> Inl e
         | Inr votes \<Rightarrow>
             (let image_url = (case img_tag movie_element of
                                 Some src \<Rightarrow> opt_str src
                               | None \<Rightarrow> PStr ''N/A'');
                  detail_url = extract_movie_link movie_element
              in Inr (dict_literal
                        [(''title'', PStr title),
                         (''year'', PStr year),
                         (''rating'', PStr rating),
                         (''votes'', opt_int votes),
                         (''image_url'', image_url),
                         (''detail_url'', opt_str detail_url)])))"

text \<open>
  \<open>re.search(r'(\d+h\s*\d*m?)', raw_text)\<close>: the match that starts at the first
  character of a text, if there is one (every quantifier is greedy and none has to
  give back), and the leftmost match in a text.
\<close>

definition match_duration :: "string \<Rightarrow> string option" where
  "match_duration s =
     (let hours = takeWhile is_digit s
      in case dropWhile is_digit s of
           [] \<Rightarrow> None
         | c # r \<Rightarrow>
             if hours \<noteq> [] \<and> c = CHR ''h'' then
               (let spaces = takeWhile is_space r;
                    r' = dropWhile is_space r;
                    minutes = takeWhile is_digit r';
                    m = (case dropWhile is_digit r' of
                           [] \<Rightarrow> []
                         | x # _ \<Rightarrow> if x = CHR ''m'' then ''m'' else [])
                in Some (hours @ ''h'' @ spaces @ minutes @ m))
             else None)"

fun re_search_duration :: "string \<Rightarrow> string option" where
  "re_search_duration [] = None"
| "re_search_duration (c # cs) =
     (case match_duration (c # cs) of
        Some m \<Rightarrow> Some m
      | None \<Rightarrow> re_search_duration cs)"

definition extract_movie_details ::
    "world \<Rightarrow> pyval \<Rightarrow> event list \<Rightarrow> event list \<times> (error + pydict)" where
  "extract_movie_details w detail_url tr =
     (case fetch_page w detail_url tr of
        (tr', Inl e) \<Rightarrow> (tr', Inl e)
      | (tr', Inr soup) \<Rightarrow>
          (let genres = genre_chips soup;
               duration = (case runtime soup of
                             None \<Rightarrow> ''N/A''
                           | Some raw_text \<Rightarrow>
                               (case re_search_duration raw_text of
                                  Some m \<Rightarrow> m
                                | None \<Rightarrow> ''N/A''));
               directors = list_of_set w (director_links soup);
               writers = list_of_set w (writer_links soup);
               actors = list_of_set w (actor_links soup);
               plot = (case plot_tag soup of Some t \<Rightarrow> t | None \<Rightarrow> ''N/A'')
           in (tr', Inr (dict_literal
                          [(''genres'', PStr (py_join '', '' genres)),
                           (''duration'', PStr duration),
                           (''directors'', PStr (py_join '', '' directors)),
                           (''writers'', PStr (py_join '', '' writers)),
                           (''actors'', PStr (py_join '', '' actors)),
                           (''plot'', PStr plot)]))))"

text \<open>The progress prefix \<open>[i+1/total]\<close> of the lines the loop prints.\<close>

definition progress :: "nat \<Rightarrow> nat \<Rightarrow> string" where
  "progress i total' = ''['' @ str_of_nat (i + 1) @ ''/'' @ str_of_nat total' @ ''] ''"

text \<open>
  The loop of \<open>scrape_top_movies\<close> over the entries left, with the index \<open>i\<close> of the
  next one and the records so far. \<open>include_details and movie_data["detail_url"]\<close>
  looks the address up only when \<open>include_details\<close> holds.
\<close>

fun scrape_loop ::
    "world \<Rightarrow> bool \<Rightarrow> nat \<Rightarrow> nat \<Rightarrow> movie_element list \<Rightarrow> pydict list \<Rightarrow> event list
      \<Rightarrow> event list \<times> (error + pydict list)" where
  "scrape_loop w include_details total' i [] movies tr = (tr, Inr movies)"
| "scrape_loop w include_details total' i (movie_element # rest) movies tr =
     (case extract_basic_data movie_element of
        Inl e \<Rightarrow> (tr, Inl e)
      | Inr movie_data \<Rightarrow>
          (case (if include_details then dict_get movie_data ''detail_url''
                 else Inr (PBool False)) of
             Inl e \<Rightarrow> (tr, Inl e)
           | Inr gate \<Rightarrow>
               (case dict_get movie_data ''title'' of
                  Inl e \<Rightarrow> (tr, Inl e)
                | Inr title \<Rightarrow>
                    if truthy gate then
                      (case extract_movie_details w gate
                              (tr @ [Print (progress i total' @ ''Fetching details for: ''
                                            @ py_str title)]) of
                         (tr', Inl e) \<Rightarrow> (tr', Inl e)
                       | (tr', Inr details) \<Rightarrow>
                           scrape_loop w include_details total' (i + 1) rest
                             (movies @ [dict_update movie_data details])
                             (tr' @ [Sleep 1]))
                    else
                      scrape_loop w include_details total' (i + 1) rest
                        (movies @ [movie_data])
                        (tr @ [Print (progress i total' @ py_str title)]))))"

text \<open>
  \<open>scrape_top_movies(limit, include_details)\<close>; \<open>limit\<close> is \<open>None\<close> or an integer, and
  \<open>if limit:\<close> holds for an integer other than zero.
\<close>

definition scrape_top_movies ::
    "world \<Rightarrow> int option \<Rightarrow> bool \<Rightarrow> event list \<Rightarrow> event list \<times> (error + pydict list)" where
  "scrape_top_movies w limit include_details tr =
     (case fetch_page w (PStr URL) (tr @ [Print ''Fetching IMDb Top 250 list...'']) of
        (tr1, Inl e) \<Rightarrow> (tr1, Inl e)
      | (tr1, Inr soup) \<Rightarrow>
          (let found = list_items soup;
               tr2 = tr1 @ [Print (''Found '' @ str_of_nat (length found)
                                   @ '' movies on list page'')];
               (movie_elements, tr3) =
                 (if truthy (opt_int limit)
                  then (slice_to found (the limit),
                        tr2 @ [Print (''Limiting to '' @ str_of_int (the limit) @ '' movies'')])
                  else (found, tr2))
           in case scrape_loop w include_details (length movie_elements) 0 movie_elements [] tr3 of
                (tr4, Inl e) \<Rightarrow> (tr4, Inl e)
              | (tr4, Inr movies) \<Rightarrow>
                  (tr4 @ [Print (CHR 0x0A # ''Successfully extracted ''
                                 @ str_of_nat (length movies) @ '' movies'')],
                   Inr movies)))"

section \<open>The wording of the claims\<close>

text \<open>
  The vote-count normaliser as claim C1 words it, for comparison with \<open>clean_votes\<close>:
  in the branches for "M" and "K" it parses the numeric prefix of the cleaned text, the
  longest run of digits and decimal points it starts with.
\<close>

definition numeric_prefix :: "string \<Rightarrow> string" where
  "numeric_prefix c = takeWhile (\<lambda>x. is_digit x \<or> x = CHR ''.'') c"

definition clean_votes_as_claimed :: "string \<Rightarrow> error + int option" where
  "clean_votes_as_claimed s =
     (if s = [] \<or> s = ''N/A'' then Inr None
      else (let c = py_strip (filter (\<lambda>x. x \<noteq> CHR ''('' \<and> x \<noteq> CHR '')'') s)
            in if CHR ''M'' \<in> set c then
                 (case py_float_of_str (numeric_prefix c) of
                    Inl e \<Rightarrow> Inl e
                  | Inr x \<Rightarrow> map_sum id Some (py_int_of_float (float_mul x (Finite 1000000))))
               else if CHR ''K'' \<in> set c then
                 (case py_float_of_str (numeric_prefix c) of
                    Inl e \<Rightarrow> Inl e
                  | Inr x \<Rightarrow> map_sum id Some (py_int_of_float (float_mul x (Finite 1000))))
               else map_sum id Some
                      (py_int_of_str (filter (\<lambda>x. x \<noteq> CHR '','' \<and> x \<noteq> CHR ''.'') c))))"

text \<open>The vote-count text \<open>extract_basic_data\<close> hands to \<open>clean_votes\<close>.\<close>

definition vote_text :: "movie_element \<Rightarrow> string" where
  "vote_text e = (case votes_tag e of Some t \<Rightarrow> t | None \<Rightarrow> ''N/A'')"

section \<open>What a run does, and example pages\<close>

text \<open>The addresses a run requests and the pauses it takes, read off its events.\<close>

definition fetches :: "event list \<Rightarrow> pyval list" where
  "fetches tr = concat (map (\<lambda>e. case e of Get u h \<Rightarrow> [u] | _ \<Rightarrow> []) tr)"

definition sleeps :: "event list \<Rightarrow> nat list" where
  "sleeps tr = concat (map (\<lambda>e. case e of Sleep n \<Rightarrow> [n] | _ \<Rightarrow> []) tr)"

text \<open>The results of a list of steps: the first error, or all the values.\<close>

fun collect :: "('e + 'a) list \<Rightarrow> 'e + 'a list" where
  "collect [] = Inr []"
| "collect (x # xs) =
     (case x of
        Inl e \<Rightarrow> Inl e
      | Inr v \<Rightarrow> (case collect xs of Inl e \<Rightarrow> Inl e | Inr vs \<Rightarrow> Inr (v # vs)))"

text \<open>
  The entries \<open>scrape_top_movies\<close> loops over: \<open>if limit:\<close> cuts the list for an integer
  other than zero.
\<close>

definition chosen :: "int option \<Rightarrow> 'a list \<Rightarrow> 'a list" where
  "chosen limit found =
     (case limit of
        None \<Rightarrow> found
      | Some n \<Rightarrow> if n = 0 then found else slice_to found n)"

text \<open>The duration \<open>extract_movie_details\<close> reads off a detail page.\<close>

definition duration_of :: "soup \<Rightarrow> string" where
  "duration_of soup =
     (case runtime soup of
        None \<Rightarrow> ''N/A''
      | Some raw_text \<Rightarrow> (case re_search_duration raw_text of Some m \<Rightarrow> m | None \<Rightarrow> ''N/A''))"

text \<open>
  Example pages: one with nothing on it; a detail page with its credits; a list page of
  three entries, two of them with a detail link; and worlds that serve them.
\<close>

definition empty_soup :: soup where
  "empty_soup = \<lparr>list_items = [], genre_chips = [], runtime = None, director_links = [],
     writer_links = [], actor_links = [], plot_tag = None\<rparr>"

definition credits_soup :: "string list \<Rightarrow> soup" where
  "credits_soup actors = \<lparr>list_items = [], genre_chips = [''Drama''], runtime = Some ''2h 22m'',
     director_links = [''Frank Darabont'', ''Frank Darabont''],
     writer_links = [''Stephen King'', ''Frank Darabont''],
     actor_links = actors, plot_tag = None\<rparr>"

definition credits_world :: "string list \<Rightarrow> world" where
  "credits_world actors =
     \<lparr>requests_get = (\<lambda>tr url h. Inr \<lparr>status_code = 200, content = credits_soup actors\<rparr>),
      list_of_set = remdups\<rparr>"

definition entry :: "string \<Rightarrow> string option \<Rightarrow> movie_element" where
  "entry title href = \<lparr>title_tag = Some title, metadata_items = [], rating_tag = None,
     votes_tag = None, img_tag = None, link_tag = map_option Some href\<rparr>"

definition list_soup :: soup where
  "list_soup = \<lparr>list_items =
       [entry ''1. Cadena perpetua'' (Some ''/title/tt0111161/?ref_=chttp_t_1''),
        entry ''2. El padrino'' (Some ''/title/tt0068646/?ref_=chttp_t_2''),
        entry ''3. El caballero oscuro'' None],
     genre_chips = [], runtime = None, director_links = [], writer_links = [],
     actor_links = [], plot_tag = None\<rparr>"

definition list_world :: world where
  "list_world =
     \<lparr>requests_get = (\<lambda>tr url h. Inr \<lparr>status_code = 200, content = list_soup\<rparr>),
      list_of_set = remdups\<rparr>"

section \<open>Facts about splitting\<close>

lemma split_first_None_iff:
  "sep \<noteq> [] \<Longrightarrow> split_first sep s = None \<longleftrightarrow> \<not> (\<exists>a b. s = a @ sep @ b)"
proof (induction s)
  case Nil
  then show ?case by simp
next
  case (Cons c cs)
  show ?case
  proof (cases "prefix sep (c # cs)")
    case True
    then obtain r where "c # cs = sep @ r" by (auto simp: prefix_def)
    then have "c # cs = [] @ sep @ r" by simp
    with True show ?thesis by (metis split_first.simps(2) option.distinct(1))
  next
    case False
    have "(\<exists>a b. c # cs = a @ sep @ b) \<longleftrightarrow> (\<exists>a b. cs = a @ sep @ b)"
    proof
      assume "\<exists>a b. c # cs = a @ sep @ b"
      then obtain a b where ab: "c # cs = a @ sep @ b" by blast
      show "\<exists>a b. cs = a @ sep @ b"
      proof (cases a)
        case Nil
        with ab False show ?thesis by (auto simp: prefix_def)
      next
        case (Cons x a')
        with ab have "cs = a' @ sep @ b" by simp
        then show ?thesis by blast
      qed
    next
      assume "\<exists>a b. cs = a @ sep @ b"
      then obtain a b where "cs = a @ sep @ b" by blast
      then have "c # cs = (c # a) @ sep @ b" by simp
      then show "\<exists>a b. c # cs = a @ sep @ b" by blast
    qed
    with False Cons show ?thesis by (auto split: option.splits)
  qed
qed

lemma split_first_char:
  "split_first [x] s =
     (if x \<in> set s then Some (takeWhile (\<lambda>c. c \<noteq> x) s, tl (dropWhile (\<lambda>c. c \<noteq> x) s))
      else None)"
  by (induction s) auto

lemma hd_py_split_char: "hd (py_split [x] s) = takeWhile (\<lambda>c. c \<noteq> x) s"
proof (cases "x \<in> set s")
  case True
  then show ?thesis by (subst py_split.simps) (simp add: split_first_char)
next
  case False
  then have tw: "takeWhile (\<lambda>c. c \<noteq> x) s = s"
    by (induction s) auto
  from False have "py_split [x] s = [s]"
    by (subst py_split.simps) (simp add: split_first_char)
  then show ?thesis by (simp only: tw list.sel)
qed

section \<open>Facts about single-character patterns\<close>

lemma py_contains_char: "py_contains [x] s \<longleftrightarrow> x \<in> set s"
  by (induction s) auto

lemma py_replace_char_empty: "py_replace [x] [] s = filter (\<lambda>c. c \<noteq> x) s"
  by (induction s) auto

lemma py_replace_char_char: "py_replace [x] [y] s = map (\<lambda>c. if c = x then y else c) s"
  by (induction s) auto

section \<open>Facts about rounding\<close>

lemma pow2_pos: "0 < pow2 e"
  by (simp add: pow2_def)

lemma pow2_add: "pow2 (a + b) = pow2 a * pow2 b"
  by (simp add: pow2_def power_int_add)

lemma pow2_mono: "a \<le> b \<Longrightarrow> pow2 a \<le> pow2 b"
  by (simp add: pow2_def power_int_increasing)

lemma pow2_less_iff: "pow2 a < pow2 b \<longleftrightarrow> a < b"
proof
  assume "pow2 a < pow2 b"
  then have "\<not> pow2 b \<le> pow2 a" by simp
  then have "\<not> b \<le> a" using pow2_mono by blast
  then show "a < b" by simp
next
  assume "a < b"
  then show "pow2 a < pow2 b" by (simp add: pow2_def power_int_strict_increasing)
qed

lemma pow2_diff: "pow2 (a - b) = pow2 a / pow2 b"
  by (simp add: pow2_def power_int_diff)

lemma pow2_nat: "0 \<le> e \<Longrightarrow> pow2 e = 2 ^ nat e"
  by (simp add: pow2_def power_int_def)

lemma ilog2_bounds:
  assumes "0 < q"
  shows "pow2 (ilog2 q) \<le> q \<and> q < pow2 (ilog2 q + 1)"
proof -
  obtain n d where nd: "quotient_of q = (n, d)" by (cases "quotient_of q")
  then have d: "0 < d" and q: "q = of_int n / of_int d"
    by (auto dest: quotient_of_denom_pos quotient_of_div)
  with assms have n: "0 < n" by (simp add: zero_less_divide_iff)
  define bn where "bn = bitlen n"
  define bd where "bd = bitlen d"
  have int_bounds: "pow2 (bitlen k - 1) \<le> of_int k \<and> (of_int k :: rat) < pow2 (bitlen k)"
    if k: "0 < k" for k
  proof -
    from k have b1: "1 \<le> bitlen k"
      using bitlen_eq_zero_iff [of k] bitlen_nonneg [of k] by auto
    from bitlen_bounds [OF k]
    have "(2::int) ^ nat (bitlen k - 1) \<le> k" "k < 2 ^ nat (bitlen k)" by simp_all
    then have "(of_int ((2::int) ^ nat (bitlen k - 1)) :: rat) \<le> of_int k"
      "(of_int k :: rat) < of_int (2 ^ nat (bitlen k))"
      by (simp_all only: of_int_le_iff of_int_less_iff)
    with b1 show ?thesis by (simp add: pow2_nat)
  qed
  have nb: "pow2 (bn - 1) \<le> of_int n" "(of_int n :: rat) < pow2 bn"
    using int_bounds [OF n] by (simp_all add: bn_def)
  have db: "pow2 (bd - 1) \<le> of_int d" "(of_int d :: rat) < pow2 bd"
    using int_bounds [OF d] by (simp_all add: bd_def)
  have "of_int n / of_int d < pow2 bn / pow2 (bd - 1)"
    using n nb(2) db(1) by (intro frac_less) (simp_all add: pow2_pos)
  then have up: "q < pow2 (bn - bd + 1)"
    using pow2_diff [of bn "bd - 1"] by (simp add: q algebra_simps)
  have "pow2 (bn - 1) / pow2 bd \<le> of_int n / of_int d"
    using n d nb(1) db(2) by (intro frac_le) simp_all
  then have lo: "pow2 (bn - bd - 1) \<le> q"
    using pow2_diff [of "bn - 1" bd] by (simp add: q algebra_simps)
  have il: "ilog2 q = (if pow2 (bn - bd) \<le> q then bn - bd else bn - bd - 1)"
    by (simp add: ilog2_def nd bn_def bd_def)
  show ?thesis
  proof (cases "pow2 (bn - bd) \<le> q")
    case True
    with il up show ?thesis by simp
  next
    case False
    with il lo show ?thesis by simp
  qed
qed

lemma ilog2_unique:
  assumes "0 < q" "pow2 e \<le> q" "q < pow2 (e + 1)"
  shows "ilog2 q = e"
proof -
  from ilog2_bounds [OF assms(1)]
  have b: "pow2 (ilog2 q) \<le> q" "q < pow2 (ilog2 q + 1)" by simp_all
  from b(1) assms(3) have "pow2 (ilog2 q) < pow2 (e + 1)" by (rule le_less_trans)
  then have 1: "ilog2 q < e + 1" by (simp only: pow2_less_iff)
  from assms(2) b(2) have "pow2 e < pow2 (ilog2 q + 1)" by (rule le_less_trans)
  then have 2: "e < ilog2 q + 1" by (simp only: pow2_less_iff)
  from 1 2 show ?thesis by simp
qed


lemma round_half_even_nearest: "\<bar>of_int (round_half_even x) - x\<bar> \<le> 1 / 2"
proof -
  have "of_int \<lfloor>x\<rfloor> \<le> x" "x < of_int \<lfloor>x\<rfloor> + 1" by linarith+
  then show ?thesis by (auto simp: round_half_even_def Let_def abs_le_iff)
qed

lemma round_half_even_of_int: "round_half_even (of_int n) = n"
  by (simp add: round_half_even_def)

lemma pow2_neg_mult: "pow2 (- p) * pow2 p = 1"
  using pow2_add [of "- p" p] by (simp add: pow2_def)

lemma round_double_of_int:
  assumes "\<bar>n\<bar> < 2 ^ 53"
  shows "round_double (of_int n) = Finite (of_int n)"
proof (cases "n = 0")
  case True
  then show ?thesis by (simp add: round_double_def)
next
  case False
  define a :: rat where "a = \<bar>of_int n\<bar>"
  define p where "p = ilog2 a - 52"
  from False have a1: "1 \<le> a" by (simp add: a_def)
  then have a0: "0 < a" by simp
  have a_int: "a = of_int \<bar>n\<bar>" by (simp add: a_def)
  from assms have "(of_int \<bar>n\<bar> :: rat) < of_int (2 ^ 53)"
    by (simp only: of_int_less_iff)
  then have a53: "a < pow2 53" by (simp add: a_int pow2_def)
  from ilog2_bounds [OF a0]
  have b: "pow2 (ilog2 a) \<le> a" "a < pow2 (ilog2 a + 1)" by simp_all
  have "pow2 0 \<le> a" using a1 by (simp add: pow2_def)
  from this b(2) have "pow2 0 < pow2 (ilog2 a + 1)" by (rule le_less_trans)
  then have lo: "0 \<le> ilog2 a" by (simp only: pow2_less_iff)
  from b(1) a53 have "pow2 (ilog2 a) < pow2 53" by (rule le_less_trans)
  then have hi: "ilog2 a < 53" by (simp only: pow2_less_iff)
  from lo hi have p: "- 52 \<le> p" "p \<le> 0" by (simp_all add: p_def)
  then have mx: "max (ilog2 a - 52) (- 1074) = p" by (simp add: p_def)
  have "a / pow2 p = a * pow2 (- p)"
    using pow2_neg_mult [of p] pow2_pos [of p] by (simp add: field_simps)
  also have "\<dots> = of_int (\<bar>n\<bar> * 2 ^ nat (- p))"
    using p by (simp add: a_int pow2_nat)
  finally have sc: "a / pow2 p = of_int (\<bar>n\<bar> * 2 ^ nat (- p))" .
  have "of_int (round_half_even (a / pow2 p)) * pow2 p = (a / pow2 p) * pow2 p"
    by (simp only: sc round_half_even_of_int)
  also have "\<dots> = a" using pow2_pos [of p] by simp
  finally have v: "of_int (round_half_even (a / pow2 p)) * pow2 p = a" .
  have "a < pow2 1024" using a53 pow2_mono [of 53 1024] by simp
  then have nov: "\<not> pow2 1024 \<le> a" by simp
  have "round_double (of_int n) = Finite (if 0 < (of_int n :: rat) then a else - a)"
    using False nov by (simp add: round_double_def Let_def a_def [symmetric] mx v)
  also have "(if 0 < (of_int n :: rat) then a else - a) = of_int n"
    by (simp add: a_def)
  finally show ?thesis .
qed

lemma to_zero_toward_zero:
  "\<bar>of_int (to_zero x)\<bar> \<le> \<bar>x\<bar> \<and> \<bar>x\<bar> < \<bar>of_int (to_zero x)\<bar> + 1 \<and> 0 \<le> of_int (to_zero x) * x"
proof (cases "0 \<le> x")
  case True
  have "of_int \<lfloor>x\<rfloor> \<le> x" "x < of_int \<lfloor>x\<rfloor> + 1" by linarith+
  moreover from True have "0 \<le> \<lfloor>x\<rfloor>" by simp
  ultimately show ?thesis using True by (simp add: to_zero_def)
next
  case False
  have c: "x \<le> of_int \<lceil>x\<rceil>" "of_int \<lceil>x\<rceil> < x + 1" by linarith+
  from False have "\<lceil>x\<rceil> \<le> 0" by (simp add: ceiling_le_iff)
  then have n: "(of_int \<lceil>x\<rceil> :: rat) \<le> 0" by simp
  with c False show ?thesis by (simp add: to_zero_def mult_nonpos_nonpos)
qed


lemma to_zero_int: "to_zero (of_int n) = n"
  by (simp add: to_zero_def)

lemma float_of_int_exact: "\<bar>n\<bar> < 2 ^ 53 \<Longrightarrow> float_of_int n = Finite (of_int n)"
  by (simp add: float_of_int_def round_double_of_int)

lemma float_mul_int_exact:
  "\<bar>a * b\<bar> < 2 ^ 53 \<Longrightarrow> float_mul (Finite (of_int a)) (Finite (of_int b)) = Finite (of_int (a * b))"
  using round_double_of_int [of "a * b"] by simp

text \<open>Evaluating a rounding whose binary exponent and mantissa are given.\<close>

lemma floor_rat_numeral: "\<lfloor>numeral a / numeral b :: rat\<rfloor> = numeral a div numeral b"
  using floor_divide_of_int_eq [of "numeral a" "numeral b", where ?'a = rat] by simp

lemma round_double_eval:
  assumes "0 < q" "pow2 e \<le> q" "q < pow2 (e + 1)" "- 1022 \<le> e" "e < 1024"
    and "m = round_half_even (q / pow2 (e - 52))" "m < 2 ^ 53"
  shows "round_double q = Finite (of_int m * pow2 (e - 52))"
proof -
  have il: "ilog2 q = e" using assms(1-3) by (rule ilog2_unique)
  from assms(4) have mx: "max (e - 52) (- 1074) = e - 52" by simp
  from assms(7) have "(of_int m :: rat) < of_int (2 ^ 53)" by (simp only: of_int_less_iff)
  then have "(of_int m :: rat) < pow2 53" by (simp add: pow2_def)
  then have "of_int m * pow2 (e - 52) < pow2 53 * pow2 (e - 52)"
    using pow2_pos [of "e - 52"] by simp
  also have "\<dots> = pow2 (e + 1)" using pow2_add [of 53 "e - 52"] by (simp add: add.commute)
  also have "\<dots> \<le> pow2 1024" using assms(5) by (intro pow2_mono) simp
  finally have "\<not> pow2 1024 \<le> of_int m * pow2 (e - 52)" by simp
  with assms(1) show ?thesis
    by (simp add: round_double_def Let_def il mx assms(6) [symmetric])
qed


lemmas str_defs = py_strip_def strip_with_def is_space_def is_num_space_def is_digit_def
  digit_val_def nat_of_digits_def take_sign_def lower_def

lemmas float_defs = py_float_of_str_def parse_decimal_def parse_exponent_def pow10_def Let_def

lemmas round_defs = pow2_def round_half_even_def Let_def floor_rat_numeral

section \<open>Facts about the vote counts and the basic record\<close>

lemma round_double_numeral:
  "(numeral k :: int) < 2 ^ 53 \<Longrightarrow> round_double (numeral k) = Finite (numeral k)"
  using round_double_of_int [of "numeral k"] by simp

lemma round_double_one: "round_double 1 = Finite 1"
  using round_double_of_int [of 1] by simp

lemma to_zero_numeral: "to_zero (numeral k) = numeral k"
  using to_zero_int [of "numeral k"] by simp

lemma float_of_int_million: "float_of_int 1000000 = Finite 1000000"
  by (simp add: float_of_int_def round_double_numeral)

lemma float_of_int_thousand: "float_of_int 1000 = Finite 1000"
  by (simp add: float_of_int_def round_double_numeral)

lemma clean_votes_1M5: "clean_votes ''1M5'' = Inr (Some 15000000)"
  by (simp add: clean_votes_def str_defs float_defs float_of_int_million round_double_numeral
      to_zero_numeral)

lemma clean_votes_as_claimed_1M5: "clean_votes_as_claimed ''1M5'' = Inr (Some 1000000)"
  by (simp add: clean_votes_as_claimed_def numeric_prefix_def str_defs float_defs
      round_double_numeral round_double_one to_zero_numeral)

lemma round_41_10: "round_double (41 / 10) = Finite (4616189618054758 / 2 ^ 50)"
  by (rule round_double_eval [where e = 2 and m = 4616189618054758, THEN trans])
     (simp_all add: round_defs)

lemma round_41_10_million:
  "round_double (4616189618054758 / 2 ^ 50 * 1000000) = Finite (8804682956799999 / 2 ^ 31)"
  by (rule round_double_eval [where e = 21 and m = 8804682956799999, THEN trans])
     (simp_all add: round_defs)

lemma round_16_5: "round_double (16 / 5) = Finite (7205759403792794 / 2 ^ 51)"
  by (rule round_double_eval [where e = 1 and m = 7205759403792794, THEN trans])
     (simp_all add: round_defs)

lemma round_16_5_million:
  "round_double (7205759403792794 / 2 ^ 51 * 1000000) = Finite 3200000"
  by (rule round_double_eval [where e = 21 and m = 6871947673600000, THEN trans])
     (simp_all add: round_defs)

lemma clean_votes_3_2M: "clean_votes ''(3.2M)'' = Inr (Some 3200000)"
proof -
  have "clean_votes ''(3.2M)'' =
      map_sum id Some (py_int_of_float (float_mul (round_double (16 / 5)) (Finite 1000000)))"
    by (simp add: clean_votes_def str_defs float_defs float_of_int_million)
  also have "\<dots> = map_sum id Some (py_int_of_float (Finite 3200000))"
    by (simp only: round_16_5 float_mul.simps round_16_5_million)
  also have "\<dots> = Inr (Some 3200000)"
    by (simp add: to_zero_numeral)
  finally show ?thesis .
qed

lemma clean_votes_972K: "clean_votes ''(972K)'' = Inr (Some 972000)"
  by (simp add: clean_votes_def str_defs float_defs float_of_int_thousand round_double_numeral
      to_zero_numeral)

lemma clean_votes_absent: "clean_votes ''N/A'' = Inr None" "clean_votes [] = Inr None"
  by (simp_all add: clean_votes_def)

lemma dict_literal_6:
  "distinct [k1, k2, k3, k4, k5, k6] \<Longrightarrow>
     dict_literal [(k1, v1), (k2, v2), (k3, v3), (k4, v4), (k5, v5), (k6, v6)]
       = [(k1, v1), (k2, v2), (k3, v3), (k4, v4), (k5, v5), (k6, v6)]"
  by (auto simp: dict_literal_def dict_update_def)

lemma clean_title_sentinel: "clean_title (Some ''N/A'') = ''N/A''"
  by (simp add: clean_title_def py_split1_def)

lemma extract_basic_data_eq:
  "extract_basic_data e =
     (case clean_votes (vote_text e) of
        Inl err \<Rightarrow> Inl err
      | Inr votes \<Rightarrow>
          Inr [(''title'', PStr (clean_title (Some (case title_tag e of Some t \<Rightarrow> t | None \<Rightarrow> ''N/A'')))),
               (''year'', PStr (case metadata_items e of x # _ \<Rightarrow> x | [] \<Rightarrow> ''N/A'')),
               (''rating'', PStr (case rating_tag e of Some t \<Rightarrow> t | None \<Rightarrow> ''N/A'')),
               (''votes'', opt_int votes),
               (''image_url'', (case img_tag e of Some src \<Rightarrow> opt_str src | None \<Rightarrow> PStr ''N/A'')),
               (''detail_url'', opt_str (extract_movie_link e))])"
  by (simp add: extract_basic_data_def vote_text_def Let_def dict_literal_6 split: sum.splits)

lemma py_int_of_float_errors:
  "py_int_of_float x = Inl err \<Longrightarrow> err = ValueError \<or> err = OverflowError"
  by (cases x) auto

lemma py_float_of_str_errors: "py_float_of_str s = Inl err \<Longrightarrow> err = ValueError"
  by (auto simp: py_float_of_str_def Let_def split: if_splits prod.splits option.splits)

lemma py_int_of_str_errors: "py_int_of_str s = Inl err \<Longrightarrow> err = ValueError"
  by (auto simp: py_int_of_str_def Let_def split: if_splits prod.splits)

lemma map_sum_Inl: "map_sum id f x = Inl err \<longleftrightarrow> x = Inl err"
  by (cases x) auto

lemma clean_votes_errors:
  "clean_votes s = Inl err \<Longrightarrow> err = ValueError \<or> err = OverflowError"
  by (auto simp: clean_votes_def Let_def map_sum_Inl split: if_splits sum.splits
      dest: py_float_of_str_errors py_int_of_str_errors py_int_of_float_errors)

section \<open>Facts about the decimal rendering and the fetch\<close>

lemma digit_char:
  "d < 10 \<Longrightarrow> is_digit (''0123456789'' ! d) \<and> digit_val (''0123456789'' ! d) = d"
proof -
  assume "d < 10"
  then have "d \<in> {0, 1, 2, 3, 4, 5, 6, 7, 8, 9}" by auto
  then show ?thesis by (auto simp: is_digit_def digit_val_def)
qed

lemma str_of_nat_digits: "list_all is_digit (str_of_nat n) \<and> nat_of_digits (str_of_nat n) = n"
proof (induction n rule: str_of_nat.induct)
  case (1 n)
  show ?case
  proof (cases "n < 10")
    case True
    then have "str_of_nat n = [''0123456789'' ! n]" by (subst str_of_nat.simps) simp
    with digit_char [OF True] show ?thesis by (simp add: nat_of_digits_def)
  next
    case False
    have d: "is_digit (''0123456789'' ! (n mod 10))"
      "digit_val (''0123456789'' ! (n mod 10)) = n mod 10"
      using digit_char [of "n mod 10"] by simp_all
    from False 1 have ih: "list_all is_digit (str_of_nat (n div 10))"
      "nat_of_digits (str_of_nat (n div 10)) = n div 10" by simp_all
    from False have eq: "str_of_nat n = str_of_nat (n div 10) @ [''0123456789'' ! (n mod 10)]"
      by (subst str_of_nat.simps) simp
    show ?thesis
      using ih d by (simp add: eq nat_of_digits_def)
  qed
qed

lemma fetch_page_trace: "fst (fetch_page w url tr) = tr @ [Get url HEADERS]"
  by (simp add: fetch_page_def split: sum.splits)

section \<open>Facts about the records and the loop\<close>

lemma extract_movie_details_eq:
  "extract_movie_details w u tr =
     (tr @ [Get u HEADERS],
      case snd (fetch_page w u tr) of
        Inl e \<Rightarrow> Inl e
      | Inr soup \<Rightarrow>
          Inr [(''genres'', PStr (py_join '', '' (genre_chips soup))),
               (''duration'', PStr (duration_of soup)),
               (''directors'', PStr (py_join '', '' (list_of_set w (director_links soup)))),
               (''writers'', PStr (py_join '', '' (list_of_set w (writer_links soup)))),
               (''actors'', PStr (py_join '', '' (list_of_set w (actor_links soup)))),
               (''plot'', PStr (case plot_tag soup of Some t \<Rightarrow> t | None \<Rightarrow> ''N/A''))])"
proof (cases "fetch_page w u tr")
  case (Pair tr' res)
  with fetch_page_trace [of w u tr] have "tr' = tr @ [Get u HEADERS]" by simp
  with Pair show ?thesis
    by (simp add: extract_movie_details_def duration_of_def Let_def dict_literal_6 split: sum.splits)
qed

lemma extract_basic_data_title:
  "extract_basic_data e = Inr d \<Longrightarrow> \<exists>t. dict_get d ''title'' = Inr (PStr t)"
  by (auto simp: extract_basic_data_eq dict_get_def split: sum.splits)

lemma fetches_append [simp]: "fetches (a @ b) = fetches a @ fetches b"
  by (simp add: fetches_def)

lemma sleeps_append [simp]: "sleeps (a @ b) = sleeps a @ sleeps b"
  by (simp add: sleeps_def)

lemma fetches_simps [simp]:
  "fetches [] = []" "fetches (Get u h # tr) = u # fetches tr"
  "fetches (Print s # tr) = fetches tr" "fetches (Sleep n # tr) = fetches tr"
  by (simp_all add: fetches_def)

lemma sleeps_simps [simp]:
  "sleeps [] = []" "sleeps (Get u h # tr) = sleeps tr"
  "sleeps (Print s # tr) = sleeps tr" "sleeps (Sleep n # tr) = n # sleeps tr"
  by (simp_all add: sleeps_def)

lemma scrape_loop_basic:
  "fetches (fst (scrape_loop w False t i es movies tr)) = fetches tr
   \<and> sleeps (fst (scrape_loop w False t i es movies tr)) = sleeps tr
   \<and> snd (scrape_loop w False t i es movies tr)
       = (case collect (map extract_basic_data es) of
            Inl e \<Rightarrow> Inl e
          | Inr rs \<Rightarrow> Inr (movies @ rs))"
proof (induction es arbitrary: i movies tr)
  case Nil
  show ?case by simp
next
  case (Cons e es)
  show ?case
  proof (cases "extract_basic_data e")
    case (Inl err)
    then show ?thesis by simp
  next
    case (Inr d)
    then obtain title where "dict_get d ''title'' = Inr (PStr title)"
      using extract_basic_data_title by blast
    with Inr Cons [of "i + 1" "movies @ [d]" "tr @ [Print (progress i t @ title)]"]
    show ?thesis by (simp split: sum.splits)
  qed
qed

lemma scrape_top_movies_basic:
  "fetches (fst (scrape_top_movies w limit False tr)) = fetches tr @ [PStr URL]
   \<and> sleeps (fst (scrape_top_movies w limit False tr)) = sleeps tr
   \<and> snd (scrape_top_movies w limit False tr)
       = (case snd (fetch_page w (PStr URL) (tr @ [Print ''Fetching IMDb Top 250 list...''])) of
            Inl e \<Rightarrow> Inl e
          | Inr soup \<Rightarrow> collect (map extract_basic_data (chosen limit (list_items soup))))"
proof (cases "fetch_page w (PStr URL) (tr @ [Print ''Fetching IMDb Top 250 list...''])")
  case (Pair tr1 res)
  with fetch_page_trace [of w "PStr URL" "tr @ [Print ''Fetching IMDb Top 250 list...'']"]
  have tr1: "tr1 = tr @ [Print ''Fetching IMDb Top 250 list...'', Get (PStr URL) HEADERS]" by simp
  show ?thesis
  proof (cases res)
    case (Inl e)
    with Pair tr1 show ?thesis by (simp add: scrape_top_movies_def)
  next
    case (Inr soup)
    define found where "found = list_items soup"
    define tr2 where
      "tr2 = tr1 @ [Print (''Found '' @ str_of_nat (length found) @ '' movies on list page'')]"
    have top: "scrape_top_movies w limit False tr =
        (case scrape_loop w False (length es) 0 es [] tr3 of
           (tr4, Inl e) \<Rightarrow> (tr4, Inl e)
         | (tr4, Inr movies) \<Rightarrow>
             (tr4 @ [Print (CHR 0x0A # ''Successfully extracted ''
                            @ str_of_nat (length movies) @ '' movies'')],
              Inr movies))"
      if "es = chosen limit found"
        "tr3 = (if truthy (opt_int limit)
                then tr2 @ [Print (''Limiting to '' @ str_of_int (the limit) @ '' movies'')]
                else tr2)" for es tr3
      using that Pair Inr
      by (cases limit)
         (simp_all add: scrape_top_movies_def Let_def chosen_def opt_int_def found_def tr2_def
            split: prod.splits sum.splits)
    define es where "es = chosen limit found"
    define tr3 where
      "tr3 = (if truthy (opt_int limit)
              then tr2 @ [Print (''Limiting to '' @ str_of_int (the limit) @ '' movies'')]
              else tr2)"
    have f3: "fetches tr3 = fetches tr @ [PStr URL]" and s3: "sleeps tr3 = sleeps tr"
      by (simp_all add: tr3_def tr2_def tr1)
    obtain tr4 r4 where l: "scrape_loop w False (length es) 0 es [] tr3 = (tr4, r4)"
      by (cases "scrape_loop w False (length es) 0 es [] tr3")
    with scrape_loop_basic [of w "length es" 0 es "[]" tr3]
    have 4: "fetches tr4 = fetches tr3" "sleeps tr4 = sleeps tr3"
      "r4 = collect (map extract_basic_data es)"
      by (simp_all split: sum.splits)
    have page: "snd (fetch_page w (PStr URL) (tr @ [Print ''Fetching IMDb Top 250 list...'']))
        = Inr soup"
      using Pair Inr by simp
    show ?thesis
    proof (cases r4)
      case (Inl e)
      with top [OF es_def tr3_def] l have "scrape_top_movies w limit False tr = (tr4, Inl e)"
        by simp
      moreover from Inl 4(3) have "collect (map extract_basic_data (chosen limit found)) = Inl e"
        by (simp add: es_def)
      ultimately show ?thesis
        using 4(1,2) f3 s3 by (simp add: page found_def)
    next
      case (Inr ms)
      with top [OF es_def tr3_def] l
      have "scrape_top_movies w limit False tr =
          (tr4 @ [Print (CHR 0x0A # ''Successfully extracted ''
                         @ str_of_nat (length ms) @ '' movies'')], Inr ms)"
        by simp
      moreover from Inr 4(3) have "collect (map extract_basic_data (chosen limit found)) = Inr ms"
        by (simp add: es_def)
      ultimately show ?thesis
        using 4(1,2) f3 s3 by (simp add: page found_def)
    qed
  qed
qed


lemma merge_append:
  "extract_basic_data e = Inr basic \<Longrightarrow> snd (extract_movie_details w u tr) = Inr details \<Longrightarrow>
     dict_update basic details = basic @ details"
  by (auto simp: extract_basic_data_eq extract_movie_details_eq dict_update_def
      split: sum.splits)

lemma extract_basic_data_detail_url:
  "extract_basic_data e = Inr d \<Longrightarrow> \<exists>v. dict_get d ''detail_url'' = Inr v"
  by (auto simp: extract_basic_data_eq dict_get_def split: sum.splits)

lemma scrape_loop_records:
  "snd (scrape_loop w det t i es movies tr) = Inr ms \<Longrightarrow>
     \<exists>rs. ms = movies @ rs
        \<and> list_all2 (\<lambda>e r. \<exists>basic. extract_basic_data e = Inr basic \<and> prefix basic r) es rs"
proof (induction es arbitrary: i movies tr ms)
  case Nil
  then show ?case by simp
next
  case (Cons e es)
  from Cons.prems obtain d where d: "extract_basic_data e = Inr d"
    by (cases "extract_basic_data e") simp_all
  then obtain title where title: "dict_get d ''title'' = Inr (PStr title)"
    using extract_basic_data_title by blast
  from d obtain v where v: "dict_get d ''detail_url'' = Inr v"
    using extract_basic_data_detail_url by blast
  define gate where "gate = (if det then v else PBool False)"
  show ?case
  proof (cases "truthy gate")
    case False
    with Cons.prems d title v
    have "snd (scrape_loop w det t (i + 1) es (movies @ [d])
                 (tr @ [Print (progress i t @ title)])) = Inr ms"
      by (simp add: gate_def split: if_splits)
    from Cons.IH [OF this] obtain rs where "ms = (movies @ [d]) @ rs"
      "list_all2 (\<lambda>e r. \<exists>basic. extract_basic_data e = Inr basic \<and> prefix basic r) es rs"
      by blast
    with d have "ms = movies @ (d # rs)"
      "list_all2 (\<lambda>e r. \<exists>basic. extract_basic_data e = Inr basic \<and> prefix basic r)
         (e # es) (d # rs)"
      by simp_all
    then show ?thesis by blast
  next
    case True
    define tr1 where "tr1 = tr @ [Print (progress i t @ ''Fetching details for: '' @ title)]"
    obtain tr' res where x: "extract_movie_details w gate tr1 = (tr', res)"
      by (cases "extract_movie_details w gate tr1")
    with Cons.prems d title v True obtain details where res: "res = Inr details"
      by (cases res) (simp_all add: gate_def tr1_def split: if_splits)
    with Cons.prems d title v True x
    have "snd (scrape_loop w det t (i + 1) es (movies @ [dict_update d details])
                 (tr' @ [Sleep 1])) = Inr ms"
      by (simp add: gate_def tr1_def split: if_splits)
    from Cons.IH [OF this] obtain rs where rs: "ms = (movies @ [dict_update d details]) @ rs"
      "list_all2 (\<lambda>e r. \<exists>basic. extract_basic_data e = Inr basic \<and> prefix basic r) es rs"
      by blast
    from x res have "snd (extract_movie_details w gate tr1) = Inr details" by simp
    with d have "dict_update d details = d @ details" by (rule merge_append)
    with d rs have "ms = movies @ (dict_update d details # rs)"
      "list_all2 (\<lambda>e r. \<exists>basic. extract_basic_data e = Inr basic \<and> prefix basic r)
         (e # es) (dict_update d details # rs)"
      by simp_all
    then show ?thesis by blast
  qed
qed


lemma scrape_top_movies_loop:
  assumes "fetch_page w (PStr URL) (tr @ [Print ''Fetching IMDb Top 250 list...'']) = (tr1, Inr soup)"
  shows "\<exists>tr3. fetches tr3 = fetches tr1 \<and> sleeps tr3 = sleeps tr1
      \<and> snd (scrape_top_movies w limit det tr)
          = snd (scrape_loop w det (length (chosen limit (list_items soup))) 0
                   (chosen limit (list_items soup)) [] tr3)
      \<and> fetches (fst (scrape_top_movies w limit det tr))
          = fetches (fst (scrape_loop w det (length (chosen limit (list_items soup))) 0
                            (chosen limit (list_items soup)) [] tr3))
      \<and> sleeps (fst (scrape_top_movies w limit det tr))
          = sleeps (fst (scrape_loop w det (length (chosen limit (list_items soup))) 0
                           (chosen limit (list_items soup)) [] tr3))"
proof -
  define tr2 where "tr2 = tr1 @ [Print (''Found '' @ str_of_nat (length (list_items soup))
                                   @ '' movies on list page'')]"
  define tr3 where
    "tr3 = (if truthy (opt_int limit)
            then tr2 @ [Print (''Limiting to '' @ str_of_int (the limit) @ '' movies'')]
            else tr2)"
  define es where "es = chosen limit (list_items soup)"
  have top: "scrape_top_movies w limit det tr =
      (case scrape_loop w det (length es') 0 es' [] tr3' of
         (tr4, Inl e) \<Rightarrow> (tr4, Inl e)
       | (tr4, Inr movies) \<Rightarrow>
           (tr4 @ [Print (CHR 0x0A # ''Successfully extracted ''
                          @ str_of_nat (length movies) @ '' movies'')], Inr movies))"
    if "es' = chosen limit (list_items soup)"
      "tr3' = (if truthy (opt_int limit)
               then tr2 @ [Print (''Limiting to '' @ str_of_int (the limit) @ '' movies'')]
               else tr2)" for es' tr3'
    using that assms
    by (cases limit)
       (simp_all add: scrape_top_movies_def Let_def chosen_def opt_int_def tr2_def
          split: prod.splits sum.splits)
  obtain tr4 r4 where l: "scrape_loop w det (length es) 0 es [] tr3 = (tr4, r4)"
    by (cases "scrape_loop w det (length es) 0 es [] tr3")
  have "fetches tr3 = fetches tr1" "sleeps tr3 = sleeps tr1"
    by (simp_all add: tr3_def tr2_def)
  moreover have "snd (scrape_top_movies w limit det tr) = r4"
    "fetches (fst (scrape_top_movies w limit det tr)) = fetches tr4"
    "sleeps (fst (scrape_top_movies w limit det tr)) = sleeps tr4"
    using top [OF es_def tr3_def] l by (cases r4; simp)+
  ultimately show ?thesis using l unfolding es_def by (intro exI [of _ tr3]) simp
qed

lemma scrape_top_movies_records:
  assumes "snd (scrape_top_movies w limit det tr) = Inr ms"
  shows "\<exists>soup. snd (fetch_page w (PStr URL) (tr @ [Print ''Fetching IMDb Top 250 list...'']))
                  = Inr soup
      \<and> list_all2 (\<lambda>e r. \<exists>basic. extract_basic_data e = Inr basic \<and> prefix basic r)
           (chosen limit (list_items soup)) ms"
proof (cases "fetch_page w (PStr URL) (tr @ [Print ''Fetching IMDb Top 250 list...''])")
  case (Pair tr1 res)
  show ?thesis
  proof (cases res)
    case (Inl e)
    with Pair assms show ?thesis by (simp add: scrape_top_movies_def)
  next
    case (Inr soup)
    with Pair scrape_top_movies_loop [of w tr tr1 soup limit det] assms
    obtain tr3 where "snd (scrape_loop w det (length (chosen limit (list_items soup))) 0
                   (chosen limit (list_items soup)) [] tr3) = Inr ms"
      by auto
    from scrape_loop_records [OF this] Pair Inr show ?thesis by auto
  qed
qed

lemma length_chosen:
  "0 < n \<Longrightarrow> length (chosen (Some n) found) = min (nat n) (length found)"
  "0 < n \<Longrightarrow> chosen (Some n) found = take (nat n) found"
  by (simp_all add: chosen_def slice_to_def)

lemma scrape_top_movies_capped:
  assumes "0 < n" "snd (scrape_top_movies w (Some n) det tr) = Inr ms"
  shows "\<exists>soup. snd (fetch_page w (PStr URL) (tr @ [Print ''Fetching IMDb Top 250 list...'']))
                  = Inr soup
      \<and> length ms = min (nat n) (length (list_items soup))
      \<and> list_all2 (\<lambda>e r. \<exists>basic. extract_basic_data e = Inr basic \<and> prefix basic r)
           (take (nat n) (list_items soup)) ms"
proof -
  from scrape_top_movies_records [OF assms(2)] obtain soup where
    s: "snd (fetch_page w (PStr URL) (tr @ [Print ''Fetching IMDb Top 250 list...''])) = Inr soup"
    "list_all2 (\<lambda>e r. \<exists>basic. extract_basic_data e = Inr basic \<and> prefix basic r)
       (chosen (Some n) (list_items soup)) ms"
    by blast
  from s(2) have "length ms = length (chosen (Some n) (list_items soup))"
    by (simp add: list_all2_lengthD)
  with s assms(1) show ?thesis by (auto simp: length_chosen)
qed

section \<open>Facts about joining and splitting names\<close>

lemma split_first_None_contains:
  "sep \<noteq> [] \<Longrightarrow> split_first sep s = None \<longleftrightarrow> \<not> py_contains sep s"
  by (induction s) (auto split: option.splits)

lemma split_first_comma_space:
  "\<not> py_contains '', '' a \<Longrightarrow> split_first '', '' (a @ '', '' @ r) = Some (a, r)"
proof (induction a)
  case Nil
  show ?case by simp
next
  case (Cons c cs)
  then have np: "\<not> prefix '', '' (c # cs)" and nc: "\<not> py_contains '', '' cs" by simp_all
  have "\<not> prefix '', '' (c # cs @ '', '' @ r)"
  proof (cases cs)
    case Nil
    then show ?thesis by simp
  next
    case (Cons x xs)
    with np show ?thesis by simp
  qed
  with Cons.IH [OF nc] show ?case by simp
qed

lemma py_split_join:
  "names \<noteq> [] \<Longrightarrow> \<forall>t \<in> set names. \<not> py_contains '', '' t \<Longrightarrow>
     py_split '', '' (py_join '', '' names) = names"
proof (induction "'', ''" names rule: py_join.induct)
  case 1
  then show ?case by simp
next
  case (2 x)
  then have "split_first '', '' x = None" by (simp add: split_first_None_contains)
  then show ?case by (subst py_split.simps) simp
next
  case (3 x y ys)
  then have "split_first '', '' (x @ '', '' @ py_join '', '' (y # ys))
      = Some (x, py_join '', '' (y # ys))"
    by (intro split_first_comma_space) simp
  moreover from 3 have "py_split '', '' (py_join '', '' (y # ys)) = y # ys" by simp
  ultimately show ?case by (subst py_split.simps) simp
qed

lemma py_split_sammy: "py_split '', '' ''Sammy Davis, Jr.'' = [''Sammy Davis'', ''Jr.'']"
  by (simp add: py_split.simps)

section \<open>Facts about the example pages\<close>

lemma extract_basic_data_entry:
  "extract_basic_data (entry title href) =
     Inr [(''title'', PStr (clean_title (Some title))), (''year'', PStr ''N/A''),
          (''rating'', PStr ''N/A''), (''votes'', PNone), (''image_url'', PStr ''N/A''),
          (''detail_url'', opt_str (extract_movie_link (entry title href)))]"
  by (simp add: extract_basic_data_eq entry_def vote_text_def clean_votes_absent opt_int_def)

lemma list_world_page: "snd (fetch_page list_world u tr) = Inr list_soup"
  by (simp add: fetch_page_def list_world_def)

lemma list_world_titles:
  "map_sum id (map (\<lambda>d. map_of d ''title''))
       (collect (map extract_basic_data (list_items list_soup)))
     = Inr [Some (PStr ''Cadena perpetua''), Some (PStr ''El padrino''),
            Some (PStr ''El caballero oscuro'')]"
  by (simp add: list_soup_def extract_basic_data_entry clean_title_def py_split1_def)

lemma extract_movie_link_entry:
  "extract_movie_link (entry title href)
     = map_option (\<lambda>h. ''https://www.imdb.com'' @ takeWhile (\<lambda>c. c \<noteq> CHR ''?'') h) href"
  by (cases href) (simp_all add: extract_movie_link_def entry_def BASE_URL_def hd_py_split_char)

lemma list_world_urls:
  "map_sum id (map (\<lambda>d. map_of d ''detail_url''))
       (collect (map extract_basic_data (list_items list_soup)))
     = Inr [Some (PStr ''https://www.imdb.com/title/tt0111161/''),
            Some (PStr ''https://www.imdb.com/title/tt0068646/''), Some PNone]"
  by (simp add: list_soup_def extract_basic_data_entry extract_movie_link_entry opt_str_def)

section \<open>Facts about one-decimal millions\<close>

text \<open>A conversion, a product and a truncation in one step, the exponents and mantissas given.\<close>

lemma scaled_eval:
  assumes "0 < q" "pow2 e \<le> q" "q < pow2 (e + 1)" "- 1022 \<le> e" "e < 1024"
    and "m = round_half_even (q / pow2 (e - 52))" "m < 2 ^ 53"
    and "0 < of_int m * pow2 (e - 52) * c"
    and "pow2 e' \<le> of_int m * pow2 (e - 52) * c"
    and "of_int m * pow2 (e - 52) * c < pow2 (e' + 1)" "- 1022 \<le> e'" "e' < 1024"
    and "m' = round_half_even (of_int m * pow2 (e - 52) * c / pow2 (e' - 52))" "m' < 2 ^ 53"
    and "v = to_zero (of_int m' * pow2 (e' - 52))"
  shows "py_int_of_float (float_mul (round_double q) (Finite c)) = Inr v"
proof -
  have "round_double q = Finite (of_int m * pow2 (e - 52))"
    using assms(1-7) by (rule round_double_eval)
  moreover have "round_double (of_int m * pow2 (e - 52) * c) = Finite (of_int m' * pow2 (e' - 52))"
    using assms(8-14) by (rule round_double_eval)
  ultimately show ?thesis by (simp add: assms(15))
qed

text \<open>
  The vote counts "(d.dM)" one by one: the double nearest to k/10, its product with
  1000000 rounded to a double, and the integer part of that, for k from 0 to 99.
\<close>

lemma million_tenths_0:
  "py_int_of_float (float_mul (round_double 0) (Finite 1000000)) = Inr 0"
  by (simp add: round_double_def to_zero_def)

lemma million_tenths_1:
  "py_int_of_float (float_mul (round_double (1 / 10)) (Finite 1000000)) = Inr 100000"
  by (rule scaled_eval [where e = "- 4" and m = 7205759403792794 and e' = 16 and m' = 6871947673600000])
     (simp_all add: round_defs to_zero_def)

lemma million_tenths_2:
  "py_int_of_float (float_mul (round_double (1 / 5)) (Finite 1000000)) = Inr 200000"
  by (rule scaled_eval [where e = "- 3" and m = 7205759403792794 and e' = 17 and m' = 6871947673600000])
     (simp_all add: round_defs to_zero_def)

lemma million_tenths_3:
  "py_int_of_float (float_mul (round_double (3 / 10)) (Finite 1000000)) = Inr 300000"
  by (rule scaled_eval [where e = "- 2" and m = 5404319552844595 and e' = 18 and m' = 5153960755200000])
     (simp_all add: round_defs to_zero_def)

lemma million_tenths_4:
  "py_int_of_float (float_mul (round_double (2 / 5)) (Finite 1000000)) = Inr 400000"
  by (rule scaled_eval [where e = "- 2" and m = 7205759403792794 and e' = 18 and m' = 6871947673600000])
     (simp_all add: round_defs to_zero_def)

lemma million_tenths_5:
  "py_int_of_float (float_mul (round_double (1 / 2)) (Finite 1000000)) = Inr 500000"
  by (rule scaled_eval [where e = "- 1" and m = 4503599627370496 and e' = 18 and m' = 8589934592000000])
     (simp_all add: round_defs to_zero_def)

lemma million_tenths_6:
  "py_int_of_float (float_mul (round_double (3 / 5)) (Finite 1000000)) = Inr 600000"
  by (rule scaled_eval [where e = "- 1" and m = 5404319552844595 and e' = 19 and m' = 5153960755200000])
     (simp_all add: round_defs to_zero_def)

lemma million_tenths_7:
  "py_int_of_float (float_mul (round_double (7 / 10)) (Finite 1000000)) = Inr 700000"
  by (rule scaled_eval [where e = "- 1" and m = 6305039478318694 and e' = 19 and m' = 6012954214400000])
     (simp_all add: round_defs to_zero_def)

lemma million_tenths_8:
  "py_int_of_float (float_mul (round_double (4 / 5)) (Finite 1000000)) = Inr 800000"
  by (rule scaled_eval [where e = "- 1" and m = 7205759403792794 and e' = 19 and m' = 6871947673600000])
     (simp_all add: round_defs to_zero_def)

lemma million_tenths_9:
  "py_int_of_float (float_mul (round_double (9 / 10)) (Finite 1000000)) = Inr 900000"
  by (rule scaled_eval [where e = "- 1" and m = 8106479329266893 and e' = 19 and m' = 7730941132800000])
     (simp_all add: round_defs to_zero_def)

lemma million_tenths_10:
  "py_int_of_float (float_mul (round_double 1) (Finite 1000000)) = Inr 1000000"
  by (rule scaled_eval [where e = "0" and m = 4503599627370496 and e' = 19 and m' = 8589934592000000])
     (simp_all add: round_defs to_zero_def)

lemma million_tenths_11:
  "py_int_of_float (float_mul (round_double (11 / 10)) (Finite 1000000)) = Inr 1100000"
  by (rule scaled_eval [where e = "0" and m = 4953959590107546 and e' = 20 and m' = 4724464025600000])
     (simp_all add: round_defs to_zero_def)

lemma million_tenths_12:
  "py_int_of_float (float_mul (round_double (6 / 5)) (Finite 1000000)) = Inr 1200000"
  by (rule scaled_eval [where e = "0" and m = 5404319552844595 and e' = 20 and m' = 5153960755200000])
     (simp_all add: round_defs to_zero_def)

lemma million_tenths_13:
  "py_int_of_float (float_mul (round_double (13 / 10)) (Finite 1000000)) = Inr 1300000"
  by (rule scaled_eval [where e = "0" and m = 5854679515581645 and e' = 20 and m' = 5583457484800000])
     (simp_all add: round_defs to_zero_def)

lemma million_tenths_14:
  "py_int_of_float (float_mul (round_double (7 / 5)) (Finite 1000000)) = Inr 1400000"
  by (rule scaled_eval [where e = "0" and m = 6305039478318694 and e' = 20 and m' = 6012954214400000])
     (simp_all add: round_defs to_zero_def)

lemma million_tenths_15:
  "py_int_of_float (float_mul (round_double (3 / 2)) (Finite 1000000)) = Inr 1500000"
  by (rule scaled_eval [where e = "0" and m = 6755399441055744 and e' = 20 and m' = 6442450944000000])
     (simp_all add: round_defs to_zero_def)

lemma million_tenths_16:
  "py_int_of_float (float_mul (round_double (8 / 5)) (Finite 1000000)) = Inr 1600000"
  by (rule scaled_eval [where e = "0" and m = 7205759403792794 and e' = 20 and m' = 6871947673600000])
     (simp_all add: round_defs to_zero_def)

lemma million_tenths_17:
  "py_int_of_float (float_mul (round_double (17 / 10)) (Finite 1000000)) = Inr 1700000"
  by (rule scaled_eval [where e = "0" and m = 7656119366529843 and e' = 20 and m' = 7301444403200000])
     (simp_all add: round_defs to_zero_def)

lemma million_tenths_18:
  "py_int_of_float (float_mul (round_double (9 / 5)) (Finite 1000000)) = Inr 1800000"
  by (rule scaled_eval [where e = "0" and m = 8106479329266893 and e' = 20 and m' = 7730941132800000])
     (simp_all add: round_defs to_zero_def)

lemma million_tenths_19:
  "py_int_of_float (float_mul (round_double (19 / 10)) (Finite 1000000)) = Inr 1900000"
  by (rule scaled_eval [where e = "0" and m = 8556839292003942 and e' = 20 and m' = 8160437862400000])
     (simp_all add: round_defs to_zero_def)

lemma million_tenths_20:
  "py_int_of_float (float_mul (round_double 2) (Finite 1000000)) = Inr 2000000"
  by (rule scaled_eval [where e = "1" and m = 4503599627370496 and e' = 20 and m' = 8589934592000000])
     (simp_all add: round_defs to_zero_def)

lemma million_tenths_21:
  "py_int_of_float (float_mul (round_double (21 / 10)) (Finite 1000000)) = Inr 2100000"
  by (rule scaled_eval [where e = "1" and m = 4728779608739021 and e' = 21 and m' = 4509715660800000])
     (simp_all add: round_defs to_zero_def)

lemma million_tenths_22:
  "py_int_of_float (float_mul (round_double (11 / 5)) (Finite 1000000)) = Inr 2200000"
  by (rule scaled_eval [where e = "1" and m = 4953959590107546 and e' = 21 and m' = 4724464025600000])
     (simp_all add: round_defs to_zero_def)

lemma million_tenths_23:
  "py_int_of_float (float_mul (round_double (23 / 10)) (Finite 1000000)) = Inr 2300000"
  by (rule scaled_eval [where e = "1" and m = 5179139571476070 and e' = 21 and m' = 4939212390400000])
     (simp_all add: round_defs to_zero_def)

lemma million_tenths_24:
  "py_int_of_float (float_mul (round_double (12 / 5)) (Finite 1000000)) = Inr 2400000"
  by (rule scaled_eval [where e = "1" and m = 5404319552844595 and e' = 21 and m' = 5153960755200000])
     (simp_all add: round_defs to_zero_def)

lemma million_tenths_25:
  "py_int_of_float (float_mul (round_double (5 / 2)) (Finite 1000000)) = Inr 2500000"
  by (rule scaled_eval [where e = "1" and m = 5629499534213120 and e' = 21 and m' = 5368709120000000])
     (simp_all add: round_defs to_zero_def)

lemma million_tenths_26:
  "py_int_of_float (float_mul (round_double (13 / 5)) (Finite 1000000)) = Inr 2600000"
  by (rule scaled_eval [where e = "1" and m = 5854679515581645 and e' = 21 and m' = 5583457484800000])
     (simp_all add: round_defs to_zero_def)

lemma million_tenths_27:
  "py_int_of_float (float_mul (round_double (27 / 10)) (Finite 1000000)) = Inr 2700000"
  by (rule scaled_eval [where e = "1" and m = 6079859496950170 and e' = 21 and m' = 5798205849600000])
     (simp_all add: round_defs to_zero_def)

lemma million_tenths_28:
  "py_int_of_float (float_mul (round_double (14 / 5)) (Finite 1000000)) = Inr 2800000"
  by (rule scaled_eval [where e = "1" and m = 6305039478318694 and e' = 21 and m' = 6012954214400000])
     (simp_all add: round_defs to_zero_def)

lemma million_tenths_29:
  "py_int_of_float (float_mul (round_double (29 / 10)) (Finite 1000000)) = Inr 2900000"
  by (rule scaled_eval [where e = "1" and m = 6530219459687219 and e' = 21 and m' = 6227702579200000])
     (simp_all add: round_defs to_zero_def)

lemma million_tenths_30:
  "py_int_of_float (float_mul (round_double 3) (Finite 1000000)) = Inr 3000000"
  by (rule scaled_eval [where e = "1" and m = 6755399441055744 and e' = 21 and m' = 6442450944000000])
     (simp_all add: round_defs to_zero_def)

lemma million_tenths_31:
  "py_int_of_float (float_mul (round_double (31 / 10)) (Finite 1000000)) = Inr 3100000"
  by (rule scaled_eval [where e = "1" and m = 6980579422424269 and e' = 21 and m' = 6657199308800000])
     (simp_all add: round_defs to_zero_def)

lemma million_tenths_32:
  "py_int_of_float (float_mul (round_double (16 / 5)) (Finite 1000000)) = Inr 3200000"
  by (rule scaled_eval [where e = "1" and m = 7205759403792794 and e' = 21 and m' = 6871947673600000])
     (simp_all add: round_defs to_zero_def)

lemma million_tenths_33:
  "py_int_of_float (float_mul (round_double (33 / 10)) (Finite 1000000)) = Inr 3300000"
  by (rule scaled_eval [where e = "1" and m = 7430939385161318 and e' = 21 and m' = 7086696038400000])
     (simp_all add: round_defs to_zero_def)

lemma million_tenths_34:
  "py_int_of_float (float_mul (round_double (17 / 5)) (Finite 1000000)) = Inr 3400000"
  by (rule scaled_eval [where e = "1" and m = 7656119366529843 and e' = 21 and m' = 7301444403200000])
     (simp_all add: round_defs to_zero_def)

lemma million_tenths_35:
  "py_int_of_float (float_mul (round_double (7 / 2)) (Finite 1000000)) = Inr 3500000"
  by (rule scaled_eval [where e = "1" and m = 7881299347898368 and e' = 21 and m' = 7516192768000000])
     (simp_all add: round_defs to_zero_def)

lemma million_tenths_36:
  "py_int_of_float (float_mul (round_double (18 / 5)) (Finite 1000000)) = Inr 3600000"
  by (rule scaled_eval [where e = "1" and m = 8106479329266893 and e' = 21 and m' = 7730941132800000])
     (simp_all add: round_defs to_zero_def)

lemma million_tenths_37:
  "py_int_of_float (float_mul (round_double (37 / 10)) (Finite 1000000)) = Inr 3700000"
  by (rule scaled_eval [where e = "1" and m = 8331659310635418 and e' = 21 and m' = 7945689497600000])
     (simp_all add: round_defs to_zero_def)

lemma million_tenths_38:
  "py_int_of_float (float_mul (round_double (19 / 5)) (Finite 1000000)) = Inr 3800000"
  by (rule scaled_eval [where e = "1" and m = 8556839292003942 and e' = 21 and m' = 8160437862400000])
     (simp_all add: round_defs to_zero_def)

lemma million_tenths_39:
  "py_int_of_float (float_mul (round_double (39 / 10)) (Finite 1000000)) = Inr 3900000"
  by (rule scaled_eval [where e = "1" and m = 8782019273372467 and e' = 21 and m' = 8375186227200000])
     (simp_all add: round_defs to_zero_def)

lemma million_tenths_40:
  "py_int_of_float (float_mul (round_double 4) (Finite 1000000)) = Inr 4000000"
  by (rule scaled_eval [where e = "2" and m = 4503599627370496 and e' = 21 and m' = 8589934592000000])
     (simp_all add: round_defs to_zero_def)

lemma million_tenths_41:
  "py_int_of_float (float_mul (round_double (41 / 10)) (Finite 1000000)) = Inr 4099999"
  by (rule scaled_eval [where e = "2" and m = 4616189618054758 and e' = 21 and m' = 8804682956799999])
     (simp_all add: round_defs to_zero_def)

lemma million_tenths_42:
  "py_int_of_float (float_mul (round_double (21 / 5)) (Finite 1000000)) = Inr 4200000"
  by (rule scaled_eval [where e = "2" and m = 4728779608739021 and e' = 22 and m' = 4509715660800000])
     (simp_all add: round_defs to_zero_def)

lemma million_tenths_43:
  "py_int_of_float (float_mul (round_double (43 / 10)) (Finite 1000000)) = Inr 4300000"
  by (rule scaled_eval [where e = "2" and m = 4841369599423283 and e' = 22 and m' = 4617089843200000])
     (simp_all add: round_defs to_zero_def)

lemma million_tenths_44:
  "py_int_of_float (float_mul (round_double (22 / 5)) (Finite 1000000)) = Inr 4400000"
  by (rule scaled_eval [where e = "2" and m = 4953959590107546 and e' = 22 and m' = 4724464025600000])
     (simp_all add: round_defs to_zero_def)

lemma million_tenths_45:
  "py_int_of_float (float_mul (round_double (9 / 2)) (Finite 1000000)) = Inr 4500000"
  by (rule scaled_eval [where e = "2" and m = 5066549580791808 and e' = 22 and m' = 4831838208000000])
     (simp_all add: round_defs to_zero_def)

lemma million_tenths_46:
  "py_int_of_float (float_mul (round_double (23 / 5)) (Finite 1000000)) = Inr 4600000"
  by (rule scaled_eval [where e = "2" and m = 5179139571476070 and e' = 22 and m' = 4939212390400000])
     (simp_all add: round_defs to_zero_def)

lemma million_tenths_47:
  "py_int_of_float (float_mul (round_double (47 / 10)) (Finite 1000000)) = Inr 4700000"
  by (rule scaled_eval [where e = "2" and m = 5291729562160333 and e' = 22 and m' = 5046586572800000])
     (simp_all add: round_defs to_zero_def)

lemma million_tenths_48:
  "py_int_of_float (float_mul (round_double (24 / 5)) (Finite 1000000)) = Inr 4800000"
  by (rule scaled_eval [where e = "2" and m = 5404319552844595 and e' = 22 and m' = 5153960755200000])
     (simp_all add: round_defs to_zero_def)

lemma million_tenths_49:
  "py_int_of_float (float_mul (round_double (49 / 10)) (Finite 1000000)) = Inr 4900000"
  by (rule scaled_eval [where e = "2" and m = 5516909543528858 and e' = 22 and m' = 5261334937600000])
     (simp_all add: round_defs to_zero_def)

lemma million_tenths_50:
  "py_int_of_float (float_mul (round_double 5) (Finite 1000000)) = Inr 5000000"
  by (rule scaled_eval [where e = "2" and m = 5629499534213120 and e' = 22 and m' = 5368709120000000])
     (simp_all add: round_defs to_zero_def)

lemma million_tenths_51:
  "py_int_of_float (float_mul (round_double (51 / 10)) (Finite 1000000)) = Inr 5100000"
  by (rule scaled_eval [where e = "2" and m = 5742089524897382 and e' = 22 and m' = 5476083302400000])
     (simp_all add: round_defs to_zero_def)

lemma million_tenths_52:
  "py_int_of_float (float_mul (round_double (26 / 5)) (Finite 1000000)) = Inr 5200000"
  by (rule scaled_eval [where e = "2" and m = 5854679515581645 and e' = 22 and m' = 5583457484800000])
     (simp_all add: round_defs to_zero_def)

lemma million_tenths_53:
  "py_int_of_float (float_mul (round_double (53 / 10)) (Finite 1000000)) = Inr 5300000"
  by (rule scaled_eval [where e = "2" and m = 5967269506265907 and e' = 22 and m' = 5690831667200000])
     (simp_all add: round_defs to_zero_def)

lemma million_tenths_54:
  "py_int_of_float (float_mul (round_double (27 / 5)) (Finite 1000000)) = Inr 5400000"
  by (rule scaled_eval [where e = "2" and m = 6079859496950170 and e' = 22 and m' = 5798205849600000])
     (simp_all add: round_defs to_zero_def)

lemma million_tenths_55:
  "py_int_of_float (float_mul (round_double (11 / 2)) (Finite 1000000)) = Inr 5500000"
  by (rule scaled_eval [where e = "2" and m = 6192449487634432 and e' = 22 and m' = 5905580032000000])
     (simp_all add: round_defs to_zero_def)

lemma million_tenths_56:
  "py_int_of_float (float_mul (round_double (28 / 5)) (Finite 1000000)) = Inr 5600000"
  by (rule scaled_eval [where e = "2" and m = 6305039478318694 and e' = 22 and m' = 6012954214400000])
     (simp_all add: round_defs to_zero_def)

lemma million_tenths_57:
  "py_int_of_float (float_mul (round_double (57 / 10)) (Finite 1000000)) = Inr 5700000"
  by (rule scaled_eval [where e = "2" and m = 6417629469002957 and e' = 22 and m' = 6120328396800000])
     (simp_all add: round_defs to_zero_def)

lemma million_tenths_58:
  "py_int_of_float (float_mul (round_double (29 / 5)) (Finite 1000000)) = Inr 5800000"
  by (rule scaled_eval [where e = "2" and m = 6530219459687219 and e' = 22 and m' = 6227702579200000])
     (simp_all add: round_defs to_zero_def)

lemma million_tenths_59:
  "py_int_of_float (float_mul (round_double (59 / 10)) (Finite 1000000)) = Inr 5900000"
  by (rule scaled_eval [where e = "2" and m = 6642809450371482 and e' = 22 and m' = 6335076761600000])
     (simp_all add: round_defs to_zero_def)

lemma million_tenths_60:
  "py_int_of_float (float_mul (round_double 6) (Finite 1000000)) = Inr 6000000"
  by (rule scaled_eval [where e = "2" and m = 6755399441055744 and e' = 22 and m' = 6442450944000000])
     (simp_all add: round_defs to_zero_def)

lemma million_tenths_61:
  "py_int_of_float (float_mul (round_double (61 / 10)) (Finite 1000000)) = Inr 6100000"
  by (rule scaled_eval [where e = "2" and m = 6867989431740006 and e' = 22 and m' = 6549825126400000])
     (simp_all add: round_defs to_zero_def)

lemma million_tenths_62:
  "py_int_of_float (float_mul (round_double (31 / 5)) (Finite 1000000)) = Inr 6200000"
  by (rule scaled_eval [where e = "2" and m = 6980579422424269 and e' = 22 and m' = 6657199308800000])
     (simp_all add: round_defs to_zero_def)

lemma million_tenths_63:
  "py_int_of_float (float_mul (round_double (63 / 10)) (Finite 1000000)) = Inr 6300000"
  by (rule scaled_eval [where e = "2" and m = 7093169413108531 and e' = 22 and m' = 6764573491200000])
     (simp_all add: round_defs to_zero_def)

lemma million_tenths_64:
  "py_int_of_float (float_mul (round_double (32 / 5)) (Finite 1000000)) = Inr 6400000"
  by (rule scaled_eval [where e = "2" and m = 7205759403792794 and e' = 22 and m' = 6871947673600000])
     (simp_all add: round_defs to_zero_def)

lemma million_tenths_65:
  "py_int_of_float (float_mul (round_double (13 / 2)) (Finite 1000000)) = Inr 6500000"
  by (rule scaled_eval [where e = "2" and m = 7318349394477056 and e' = 22 and m' = 6979321856000000])
     (simp_all add: round_defs to_zero_def)

lemma million_tenths_66:
  "py_int_of_float (float_mul (round_double (33 / 5)) (Finite 1000000)) = Inr 6600000"
  by (rule scaled_eval [where e = "2" and m = 7430939385161318 and e' = 22 and m' = 7086696038400000])
     (simp_all add: round_defs to_zero_def)

lemma million_tenths_67:
  "py_int_of_float (float_mul (round_double (67 / 10)) (Finite 1000000)) = Inr 6700000"
  by (rule scaled_eval [where e = "2" and m = 7543529375845581 and e' = 22 and m' = 7194070220800000])
     (simp_all add: round_defs to_zero_def)

lemma million_tenths_68:
  "py_int_of_float (float_mul (round_double (34 / 5)) (Finite 1000000)) = Inr 6800000"
  by (rule scaled_eval [where e = "2" and m = 7656119366529843 and e' = 22 and m' = 7301444403200000])
     (simp_all add: round_defs to_zero_def)

lemma million_tenths_69:
  "py_int_of_float (float_mul (round_double (69 / 10)) (Finite 1000000)) = Inr 6900000"
  by (rule scaled_eval [where e = "2" and m = 7768709357214106 and e' = 22 and m' = 7408818585600000])
     (simp_all add: round_defs to_zero_def)

lemma million_tenths_70:
  "py_int_of_float (float_mul (round_double 7) (Finite 1000000)) = Inr 7000000"
  by (rule scaled_eval [where e = "2" and m = 7881299347898368 and e' = 22 and m' = 7516192768000000])
     (simp_all add: round_defs to_zero_def)

lemma million_tenths_71:
  "py_int_of_float (float_mul (round_double (71 / 10)) (Finite 1000000)) = Inr 7100000"
  by (rule scaled_eval [where e = "2" and m = 7993889338582630 and e' = 22 and m' = 7623566950400000])
     (simp_all add: round_defs to_zero_def)

lemma million_tenths_72:
  "py_int_of_float (float_mul (round_double (36 / 5)) (Finite 1000000)) = Inr 7200000"
  by (rule scaled_eval [where e = "2" and m = 8106479329266893 and e' = 22 and m' = 7730941132800000])
     (simp_all add: round_defs to_zero_def)

lemma million_tenths_73:
  "py_int_of_float (float_mul (round_double (73 / 10)) (Finite 1000000)) = Inr 7300000"
  by (rule scaled_eval [where e = "2" and m = 8219069319951155 and e' = 22 and m' = 7838315315200000])
     (simp_all add: round_defs to_zero_def)

lemma million_tenths_74:
  "py_int_of_float (float_mul (round_double (37 / 5)) (Finite 1000000)) = Inr 7400000"
  by (rule scaled_eval [where e = "2" and m = 8331659310635418 and e' = 22 and m' = 7945689497600000])
     (simp_all add: round_defs to_zero_def)

lemma million_tenths_75:
  "py_int_of_float (float_mul (round_double (15 / 2)) (Finite 1000000)) = Inr 7500000"
  by (rule scaled_eval [where e = "2" and m = 8444249301319680 and e' = 22 and m' = 8053063680000000])
     (simp_all add: round_defs to_zero_def)

lemma million_tenths_76:
  "py_int_of_float (float_mul (round_double (38 / 5)) (Finite 1000000)) = Inr 7600000"
  by (rule scaled_eval [where e = "2" and m = 8556839292003942 and e' = 22 and m' = 8160437862400000])
     (simp_all add: round_defs to_zero_def)

lemma million_tenths_77:
  "py_int_of_float (float_mul (round_double (77 / 10)) (Finite 1000000)) = Inr 7700000"
  by (rule scaled_eval [where e = "2" and m = 8669429282688205 and e' = 22 and m' = 8267812044800000])
     (simp_all add: round_defs to_zero_def)

lemma million_tenths_78:
  "py_int_of_float (float_mul (round_double (39 / 5)) (Finite 1000000)) = Inr 7800000"
  by (rule scaled_eval [where e = "2" and m = 8782019273372467 and e' = 22 and m' = 8375186227200000])
     (simp_all add: round_defs to_zero_def)

lemma million_tenths_79:
  "py_int_of_float (float_mul (round_double (79 / 10)) (Finite 1000000)) = Inr 7900000"
  by (rule scaled_eval [where e = "2" and m = 8894609264056730 and e' = 22 and m' = 8482560409600000])
     (simp_all add: round_defs to_zero_def)

lemma million_tenths_80:
  "py_int_of_float (float_mul (round_double 8) (Finite 1000000)) = Inr 8000000"
  by (rule scaled_eval [where e = "3" and m = 4503599627370496 and e' = 22 and m' = 8589934592000000])
     (simp_all add: round_defs to_zero_def)

lemma million_tenths_81:
  "py_int_of_float (float_mul (round_double (81 / 10)) (Finite 1000000)) = Inr 8100000"
  by (rule scaled_eval [where e = "3" and m = 4559894622712627 and e' = 22 and m' = 8697308774400000])
     (simp_all add: round_defs to_zero_def)

lemma million_tenths_82:
  "py_int_of_float (float_mul (round_double (41 / 5)) (Finite 1000000)) = Inr 8199999"
  by (rule scaled_eval [where e = "3" and m = 4616189618054758 and e' = 22 and m' = 8804682956799999])
     (simp_all add: round_defs to_zero_def)

lemma million_tenths_83:
  "py_int_of_float (float_mul (round_double (83 / 10)) (Finite 1000000)) = Inr 8300000"
  by (rule scaled_eval [where e = "3" and m = 4672484613396890 and e' = 22 and m' = 8912057139200001])
     (simp_all add: round_defs to_zero_def)

lemma million_tenths_84:
  "py_int_of_float (float_mul (round_double (42 / 5)) (Finite 1000000)) = Inr 8400000"
  by (rule scaled_eval [where e = "3" and m = 4728779608739021 and e' = 23 and m' = 4509715660800000])
     (simp_all add: round_defs to_zero_def)

lemma million_tenths_85:
  "py_int_of_float (float_mul (round_double (17 / 2)) (Finite 1000000)) = Inr 8500000"
  by (rule scaled_eval [where e = "3" and m = 4785074604081152 and e' = 23 and m' = 4563402752000000])
     (simp_all add: round_defs to_zero_def)

lemma million_tenths_86:
  "py_int_of_float (float_mul (round_double (43 / 5)) (Finite 1000000)) = Inr 8600000"
  by (rule scaled_eval [where e = "3" and m = 4841369599423283 and e' = 23 and m' = 4617089843200000])
     (simp_all add: round_defs to_zero_def)

lemma million_tenths_87:
  "py_int_of_float (float_mul (round_double (87 / 10)) (Finite 1000000)) = Inr 8700000"
  by (rule scaled_eval [where e = "3" and m = 4897664594765414 and e' = 23 and m' = 4670776934400000])
     (simp_all add: round_defs to_zero_def)

lemma million_tenths_88:
  "py_int_of_float (float_mul (round_double (44 / 5)) (Finite 1000000)) = Inr 8800000"
  by (rule scaled_eval [where e = "3" and m = 4953959590107546 and e' = 23 and m' = 4724464025600000])
     (simp_all add: round_defs to_zero_def)

lemma million_tenths_89:
  "py_int_of_float (float_mul (round_double (89 / 10)) (Finite 1000000)) = Inr 8900000"
  by (rule scaled_eval [where e = "3" and m = 5010254585449677 and e' = 23 and m' = 4778151116800000])
     (simp_all add: round_defs to_zero_def)

lemma million_tenths_90:
  "py_int_of_float (float_mul (round_double 9) (Finite 1000000)) = Inr 9000000"
  by (rule scaled_eval [where e = "3" and m = 5066549580791808 and e' = 23 and m' = 4831838208000000])
     (simp_all add: round_defs to_zero_def)

lemma million_tenths_91:
  "py_int_of_float (float_mul (round_double (91 / 10)) (Finite 1000000)) = Inr 9100000"
  by (rule scaled_eval [where e = "3" and m = 5122844576133939 and e' = 23 and m' = 4885525299200000])
     (simp_all add: round_defs to_zero_def)

lemma million_tenths_92:
  "py_int_of_float (float_mul (round_double (46 / 5)) (Finite 1000000)) = Inr 9200000"
  by (rule scaled_eval [where e = "3" and m = 5179139571476070 and e' = 23 and m' = 4939212390400000])
     (simp_all add: round_defs to_zero_def)

lemma million_tenths_93:
  "py_int_of_float (float_mul (round_double (93 / 10)) (Finite 1000000)) = Inr 9300000"
  by (rule scaled_eval [where e = "3" and m = 5235434566818202 and e' = 23 and m' = 4992899481600000])
     (simp_all add: round_defs to_zero_def)

lemma million_tenths_94:
  "py_int_of_float (float_mul (round_double (47 / 5)) (Finite 1000000)) = Inr 9400000"
  by (rule scaled_eval [where e = "3" and m = 5291729562160333 and e' = 23 and m' = 5046586572800000])
     (simp_all add: round_defs to_zero_def)

lemma million_tenths_95:
  "py_int_of_float (float_mul (round_double (19 / 2)) (Finite 1000000)) = Inr 9500000"
  by (rule scaled_eval [where e = "3" and m = 5348024557502464 and e' = 23 and m' = 5100273664000000])
     (simp_all add: round_defs to_zero_def)

lemma million_tenths_96:
  "py_int_of_float (float_mul (round_double (48 / 5)) (Finite 1000000)) = Inr 9600000"
  by (rule scaled_eval [where e = "3" and m = 5404319552844595 and e' = 23 and m' = 5153960755200000])
     (simp_all add: round_defs to_zero_def)

lemma million_tenths_97:
  "py_int_of_float (float_mul (round_double (97 / 10)) (Finite 1000000)) = Inr 9700000"
  by (rule scaled_eval [where e = "3" and m = 5460614548186726 and e' = 23 and m' = 5207647846400000])
     (simp_all add: round_defs to_zero_def)

lemma million_tenths_98:
  "py_int_of_float (float_mul (round_double (49 / 5)) (Finite 1000000)) = Inr 9800000"
  by (rule scaled_eval [where e = "3" and m = 5516909543528858 and e' = 23 and m' = 5261334937600000])
     (simp_all add: round_defs to_zero_def)

lemma million_tenths_99:
  "py_int_of_float (float_mul (round_double (99 / 10)) (Finite 1000000)) = Inr 9900000"
  by (rule scaled_eval [where e = "3" and m = 5573204538870989 and e' = 23 and m' = 5315022028800000])
     (simp_all add: round_defs to_zero_def)

lemmas million_tenths = million_tenths_0 million_tenths_1 million_tenths_2 million_tenths_3 million_tenths_4 million_tenths_5 million_tenths_6 million_tenths_7 million_tenths_8 million_tenths_9 million_tenths_10 million_tenths_11 million_tenths_12 million_tenths_13 million_tenths_14 million_tenths_15 million_tenths_16 million_tenths_17 million_tenths_18 million_tenths_19 million_tenths_20 million_tenths_21 million_tenths_22 million_tenths_23 million_tenths_24 million_tenths_25 million_tenths_26 million_tenths_27 million_tenths_28 million_tenths_29 million_tenths_30 million_tenths_31 million_tenths_32 million_tenths_33 million_tenths_34 million_tenths_35 million_tenths_36 million_tenths_37 million_tenths_38 million_tenths_39 million_tenths_40 million_tenths_41 million_tenths_42 million_tenths_43 million_tenths_44 million_tenths_45 million_tenths_46 million_tenths_47 million_tenths_48 million_tenths_49 million_tenths_50 million_tenths_51 million_tenths_52 million_tenths_53 million_tenths_54 million_tenths_55 million_tenths_56 million_tenths_57 million_tenths_58 million_tenths_59 million_tenths_60 million_tenths_61 million_tenths_62 million_tenths_63 million_tenths_64 million_tenths_65 million_tenths_66 million_tenths_67 million_tenths_68 million_tenths_69 million_tenths_70 million_tenths_71 million_tenths_72 million_tenths_73 million_tenths_74 million_tenths_75 million_tenths_76 million_tenths_77 million_tenths_78 million_tenths_79 million_tenths_80 million_tenths_81 million_tenths_82 million_tenths_83 million_tenths_84 million_tenths_85 million_tenths_86 million_tenths_87 million_tenths_88 million_tenths_89 million_tenths_90 million_tenths_91 million_tenths_92 million_tenths_93 million_tenths_94 million_tenths_95 million_tenths_96 million_tenths_97 million_tenths_98 million_tenths_99

lemma clean_votes_one_decimal_millions:
  assumes "a < 10" "b < 10"
  shows "clean_votes (''('' @ [''0123456789'' ! a] @ ''.'' @ [''0123456789'' ! b] @ ''M)'')
     = Inr (Some (if (a, b) = (4, 1) \<or> (a, b) = (8, 2)
                  then int (a * 1000000 + b * 100000) - 1
                  else int (a * 1000000 + b * 100000)))"
proof -
  from assms have "a \<in> {0, 1, 2, 3, 4, 5, 6, 7, 8, 9}" "b \<in> {0, 1, 2, 3, 4, 5, 6, 7, 8, 9}"
    by auto
  then show ?thesis
    by (elim insertE emptyE;
        simp add: clean_votes_def str_defs float_defs float_of_int_million million_tenths)
qed


section \<open>Claims\<close>

text \<open>
  C1, as stated, fails: on "1M5" the numeric prefix is "1", which the claim scales to
  1000000, while \<open>clean_votes\<close> removes the "M", parses "15" and returns 15000000.
\<close>

theorem clean_votes_prefix_counterexample:
  "clean_votes ''1M5'' = Inr (Some 15000000)
   \<and> clean_votes_as_claimed ''1M5'' = Inr (Some 1000000)
   \<and> clean_votes ''1M5'' \<noteq> clean_votes_as_claimed ''1M5''"
  by (simp add: clean_votes_1M5 clean_votes_as_claimed_1M5)

text \<open>
  C1, amended: for every vote-count text, \<open>clean_votes\<close> returns absent (not zero) for
  the empty text and for "N/A". Otherwise it removes every parenthesis and strips
  whitespace from the ends; if the text then contains "M" it removes every "M", turns
  every "," into ".", parses what is left with \<open>float\<close> (a \<open>ValueError\<close> when that is
  no number), multiplies the double by 1000000 and truncates the product toward zero
  (\<open>int\<close> raises for an infinite product or a NaN); else if it contains "K" it does the
  same with "K" and 1000; otherwise it removes every "," and "." and parses what is left
  with \<open>int\<close>.
\<close>

theorem clean_votes_branching:
  "clean_votes s =
     (if s = [] \<or> s = ''N/A'' then Inr None
      else (let c = py_strip (filter (\<lambda>x. x \<noteq> CHR ''('' \<and> x \<noteq> CHR '')'') s);
                decimal = (\<lambda>mark. py_float_of_str
                             (map (\<lambda>x. if x = CHR '','' then CHR ''.'' else x)
                                (filter (\<lambda>x. x \<noteq> mark) c)));
                scale = (\<lambda>m x. map_sum id Some (py_int_of_float (float_mul x (Finite m))))
            in if CHR ''M'' \<in> set c then
                 (case decimal (CHR ''M'') of Inl e \<Rightarrow> Inl e | Inr x \<Rightarrow> scale 1000000 x)
               else if CHR ''K'' \<in> set c then
                 (case decimal (CHR ''K'') of Inl e \<Rightarrow> Inl e | Inr x \<Rightarrow> scale 1000 x)
               else map_sum id Some
                      (py_int_of_str (filter (\<lambda>x. x \<noteq> CHR '','' \<and> x \<noteq> CHR ''.'') c))))
   \<and> py_int_of_float (Finite x) = Inr (if 0 \<le> x then \<lfloor>x\<rfloor> else - \<lfloor>- x\<rfloor>)"
proof -
  have parens: "py_replace '')'' [] (py_replace ''('' [] s)
      = filter (\<lambda>x. x \<noteq> CHR ''('' \<and> x \<noteq> CHR '')'') s"
    by (simp add: py_replace_char_empty conj_commute)
  have seps: "py_replace ''.'' [] (py_replace '','' [] c)
      = filter (\<lambda>x. x \<noteq> CHR '','' \<and> x \<noteq> CHR ''.'') c" for c
    by (simp add: py_replace_char_empty conj_commute)
  have "to_zero x = (if 0 \<le> x then \<lfloor>x\<rfloor> else - \<lfloor>- x\<rfloor>)"
    by (simp add: to_zero_def ceiling_def)
  then show ?thesis
    unfolding clean_votes_def parens seps
    by (simp add: py_contains_char py_replace_char_empty py_replace_char_char
        float_of_int_million float_of_int_thousand Let_def split: sum.splits)
qed

text \<open>C1, amended, at "3,2 M", the decimal comma and the space of a Spanish page.\<close>

theorem clean_votes_branching_witness:
  "clean_votes ''3,2 M'' = Inr (Some 3200000)"
proof -
  have "py_float_of_str ''3.2 '' = Inr (round_double (16 / 5))"
    by (simp add: float_defs str_defs)
  then have "clean_votes ''3,2 M'' =
      map_sum id Some (py_int_of_float (float_mul (round_double (16 / 5)) (Finite 1000000)))"
    using clean_votes_branching [of "''3,2 M''" 0]
    by (simp add: str_defs)
  also have "\<dots> = map_sum id Some (py_int_of_float (Finite 3200000))"
    by (simp only: round_16_5 float_mul.simps round_16_5_million)
  also have "\<dots> = Inr (Some 3200000)"
    by (simp add: to_zero_numeral)
  finally show ?thesis .
qed

text \<open>
  C2: a vote count of the shape "(d.dM)" should come out as the value times 1000000,
  rounded. On "(4.1M)" the code returns 4099999: the double nearest to 4.1, times
  1000000, is the double just below 4100000, and \<open>int\<close> truncates it. The examples of
  the claim come out as it says.
\<close>

theorem clean_votes_4_1M_truncated:
  "clean_votes ''(4.1M)'' = Inr (Some 4099999)
   \<and> clean_votes ''(3.2M)'' = Inr (Some 3200000)
   \<and> clean_votes ''(972K)'' = Inr (Some 972000)
   \<and> clean_votes ''N/A'' = Inr None
   \<and> clean_votes [] = Inr None"
proof -
  have "clean_votes ''(4.1M)'' =
      map_sum id Some (py_int_of_float (float_mul (round_double (41 / 10)) (Finite 1000000)))"
    by (simp add: clean_votes_def str_defs float_defs float_of_int_million)
  also have "\<dots> = map_sum id Some (py_int_of_float (Finite (8804682956799999 / 2 ^ 31)))"
    by (simp only: round_41_10 float_mul.simps round_41_10_million)
  also have "\<dots> = Inr (Some 4099999)"
    by (simp add: to_zero_def floor_rat_numeral)
  finally show ?thesis
    by (simp add: clean_votes_3_2M clean_votes_972K clean_votes_absent)
qed

text \<open>
  C3, as stated, fails: an entry whose vote-count node holds a text that is no number,
  here "(972 mil)", makes \<open>extract_basic_data\<close> raise the \<open>ValueError\<close> of \<open>clean_votes\<close>.
\<close>

theorem extract_basic_data_raises_counterexample:
  "extract_basic_data
     \<lparr>title_tag = Some ''1. Cadena perpetua'', metadata_items = [''1994''],
      rating_tag = Some ''9,3'', votes_tag = Some ''(972 mil)'',
      img_tag = None, link_tag = None\<rparr> = Inl ValueError"
  by (simp add: extract_basic_data_eq vote_text_def clean_votes_def str_defs py_int_of_str_def)

text \<open>
  C3, amended: for every list-entry node, \<open>extract_basic_data\<close> returns a record when
  the vote-count node is missing or holds a text \<open>clean_votes\<close> converts, and raises the
  \<open>ValueError\<close> or \<open>OverflowError\<close> of \<open>clean_votes\<close> for any other vote-count text; in
  the record, each missing node gives the sentinel "N/A" (absent for the votes and the
  detail URL).
\<close>

theorem extract_basic_data_best_effort:
  "(votes_tag e = None \<longrightarrow> (\<exists>d. extract_basic_data e = Inr d))
   \<and> (clean_votes (vote_text e) = Inr v \<longrightarrow> (\<exists>d. extract_basic_data e = Inr d))
   \<and> (clean_votes (vote_text e) = Inl err \<longrightarrow>
        extract_basic_data e = Inl err \<and> (err = ValueError \<or> err = OverflowError))
   \<and> (extract_basic_data e = Inr d \<longrightarrow>
        (title_tag e = None \<longrightarrow> dict_get d ''title'' = Inr (PStr ''N/A''))
        \<and> (metadata_items e = [] \<longrightarrow> dict_get d ''year'' = Inr (PStr ''N/A''))
        \<and> (rating_tag e = None \<longrightarrow> dict_get d ''rating'' = Inr (PStr ''N/A''))
        \<and> (votes_tag e = None \<longrightarrow> dict_get d ''votes'' = Inr PNone)
        \<and> (img_tag e = None \<longrightarrow> dict_get d ''image_url'' = Inr (PStr ''N/A''))
        \<and> (link_tag e = None \<longrightarrow> dict_get d ''detail_url'' = Inr PNone))"
proof -
  have absent: "clean_votes (vote_text e) = Inr None" if "votes_tag e = None"
    using that by (simp add: vote_text_def clean_votes_def)
  have 1: "votes_tag e = None \<longrightarrow> (\<exists>d. extract_basic_data e = Inr d)"
    using absent by (simp add: extract_basic_data_eq)
  have 2: "clean_votes (vote_text e) = Inr v \<longrightarrow> (\<exists>d. extract_basic_data e = Inr d)"
    by (simp add: extract_basic_data_eq)
  have 3: "clean_votes (vote_text e) = Inl err \<longrightarrow>
        extract_basic_data e = Inl err \<and> (err = ValueError \<or> err = OverflowError)"
    using clean_votes_errors [of "vote_text e" err] by (simp add: extract_basic_data_eq)
  have 4: "extract_basic_data e = Inr d \<longrightarrow>
        (title_tag e = None \<longrightarrow> dict_get d ''title'' = Inr (PStr ''N/A''))
        \<and> (metadata_items e = [] \<longrightarrow> dict_get d ''year'' = Inr (PStr ''N/A''))
        \<and> (rating_tag e = None \<longrightarrow> dict_get d ''rating'' = Inr (PStr ''N/A''))
        \<and> (votes_tag e = None \<longrightarrow> dict_get d ''votes'' = Inr PNone)
        \<and> (img_tag e = None \<longrightarrow> dict_get d ''image_url'' = Inr (PStr ''N/A''))
        \<and> (link_tag e = None \<longrightarrow> dict_get d ''detail_url'' = Inr PNone)"
    using absent
    by (auto simp: extract_basic_data_eq dict_get_def clean_title_sentinel opt_int_def opt_str_def
        extract_movie_link_def split: sum.splits)
  from 1 2 3 4 show ?thesis by blast
qed

text \<open>C3, amended, at an entry with every node missing.\<close>

theorem extract_basic_data_best_effort_witness:
  "votes_tag \<lparr>title_tag = None, metadata_items = [], rating_tag = None, votes_tag = None,
      img_tag = None, link_tag = None\<rparr> = None
   \<and> (\<exists>d. extract_basic_data
          \<lparr>title_tag = None, metadata_items = [], rating_tag = None, votes_tag = None,
           img_tag = None, link_tag = None\<rparr> = Inr d
        \<and> dict_get d ''title'' = Inr (PStr ''N/A'')
        \<and> dict_get d ''year'' = Inr (PStr ''N/A'')
        \<and> dict_get d ''rating'' = Inr (PStr ''N/A'')
        \<and> dict_get d ''votes'' = Inr PNone
        \<and> dict_get d ''image_url'' = Inr (PStr ''N/A'')
        \<and> dict_get d ''detail_url'' = Inr PNone)"
proof -
  let ?e = "\<lparr>title_tag = None, metadata_items = [], rating_tag = None, votes_tag = None,
      img_tag = None, link_tag = None\<rparr>"
  have none: "votes_tag ?e = None" by simp
  with extract_basic_data_best_effort [of ?e None ValueError "[]"]
  obtain d where d: "extract_basic_data ?e = Inr d" by blast
  with extract_basic_data_best_effort [of ?e None ValueError d]
  have "dict_get d ''title'' = Inr (PStr ''N/A'')
        \<and> dict_get d ''year'' = Inr (PStr ''N/A'')
        \<and> dict_get d ''rating'' = Inr (PStr ''N/A'')
        \<and> dict_get d ''votes'' = Inr PNone
        \<and> dict_get d ''image_url'' = Inr (PStr ''N/A'')
        \<and> dict_get d ''detail_url'' = Inr PNone"
    by simp
  with none d show ?thesis by blast
qed

text \<open>
  C4: a cap of N entries should give min(N, available) records. With a cap of 0 on a
  list page of three entries the code returns all three records: \<open>if limit:\<close> takes 0 for
  no cap.
\<close>

theorem limit_zero_is_no_limit:
  "map_sum id (map (\<lambda>d. map_of d ''title''))
       (snd (scrape_top_movies list_world (Some 0) False []))
     = Inr [Some (PStr ''Cadena perpetua''), Some (PStr ''El padrino''),
            Some (PStr ''El caballero oscuro'')]"
  using scrape_top_movies_basic [of list_world "Some 0" "[]"]
  by (simp add: list_world_page chosen_def list_world_titles)

text \<open>
  C5: \<open>clean_title\<close> maps "1. Cadena perpetua" to "Cadena perpetua"; every non-empty
  string in which the separator ". " does not occur is returned unchanged; the empty
  string and an absent input give "N/A".
\<close>

theorem clean_title_spec:
  "clean_title (Some ''1. Cadena perpetua'') = ''Cadena perpetua''
   \<and> (t \<noteq> [] \<and> \<not> (\<exists>a b. t = a @ ''. '' @ b) \<longrightarrow> clean_title (Some t) = t)
   \<and> clean_title (Some []) = ''N/A''
   \<and> clean_title None = ''N/A''"
proof -
  have ex: "clean_title (Some ''1. Cadena perpetua'') = ''Cadena perpetua''"
    by (simp add: clean_title_def py_split1_def)
  have pass: "clean_title (Some t) = t" if "t \<noteq> []" "\<not> (\<exists>a b. t = a @ ''. '' @ b)"
  proof -
    from that(2) have "split_first ''. '' t = None"
      using split_first_None_iff [of "''. ''" t] by simp
    with that(1) show ?thesis by (simp add: clean_title_def py_split1_def)
  qed
  have empty: "clean_title (Some []) = ''N/A''" "clean_title None = ''N/A''"
    by (simp_all add: clean_title_def)
  from ex pass empty show ?thesis by blast
qed

text \<open>C5 at a title with no ranking prefix.\<close>

theorem clean_title_spec_witness:
  "''Psicosis'' \<noteq> [] \<and> \<not> (\<exists>a b. ''Psicosis'' = a @ ''. '' @ b)
   \<and> clean_title (Some ''Psicosis'') = ''Psicosis''"
proof -
  have h: "\<not> (\<exists>a b. ''Psicosis'' = a @ ''. '' @ b)"
    using split_first_None_iff [of "''. ''" "''Psicosis''"] by simp
  have "clean_title (Some ''Psicosis'') = ''Psicosis''"
    using h clean_title_spec [of "''Psicosis''"] by blast
  with h show ?thesis by simp
qed

text \<open>
  C6: the relative link "/title/tt0111161/?ref_=chttp_t_1" becomes
  "https://www.imdb.com/title/tt0111161/"; for every link node the result is the site
  origin followed by the \<open>href\<close> up to, and without, its first "?" (a node with no
  \<open>href\<close> counts as the empty \<open>href\<close>); with no link node the result is absent.
\<close>

theorem extract_movie_link_spec:
  "extract_movie_link (e\<lparr>link_tag := Some (Some ''/title/tt0111161/?ref_=chttp_t_1'')\<rparr>)
     = Some ''https://www.imdb.com/title/tt0111161/''
   \<and> extract_movie_link (e\<lparr>link_tag := Some (Some href)\<rparr>)
     = Some (''https://www.imdb.com'' @ takeWhile (\<lambda>c. c \<noteq> CHR ''?'') href)
   \<and> extract_movie_link (e\<lparr>link_tag := Some None\<rparr>) = Some ''https://www.imdb.com''
   \<and> extract_movie_link (e\<lparr>link_tag := None\<rparr>) = None"
  by (simp add: extract_movie_link_def BASE_URL_def hd_py_split_char)

text \<open>
  C7: \<open>fetch_page\<close> returns the parsed document when the status is 200; for every other
  status it fails with the program's \<open>Exception\<close>, whose message ends with the status
  code in decimal (\<open>str_of_nat_digits\<close>); a fault of the HTTP client comes out as it
  went in.
\<close>

theorem fetch_page_contract:
  "(requests_get w tr url HEADERS = Inr r \<and> status_code r = 200 \<longrightarrow>
      snd (fetch_page w url tr) = Inr (content r))
   \<and> (requests_get w tr url HEADERS = Inr r \<and> status_code r \<noteq> 200 \<longrightarrow>
        (\<exists>msg. snd (fetch_page w url tr) = Inl (PyException msg)
               \<and> suffix (str_of_int (status_code r)) msg))
   \<and> (requests_get w tr url HEADERS = Inl f \<longrightarrow>
        snd (fetch_page w url tr) = Inl (TransportFault f))"
  by (simp add: fetch_page_def suffix_def)

text \<open>C7 at a page that answers 404.\<close>

theorem fetch_page_contract_witness:
  "requests_get \<lparr>requests_get = (\<lambda>tr url h. Inr \<lparr>status_code = 404, content = empty_soup\<rparr>),
                  list_of_set = remdups\<rparr> [] (PStr URL) HEADERS
      = Inr \<lparr>status_code = 404, content = empty_soup\<rparr>
   \<and> status_code \<lparr>status_code = 404, content = empty_soup\<rparr> \<noteq> 200
   \<and> suffix ''404''
        (case snd (fetch_page \<lparr>requests_get = (\<lambda>tr url h. Inr \<lparr>status_code = 404, content = empty_soup\<rparr>),
                                list_of_set = remdups\<rparr> (PStr URL) []) of
           Inl (PyException msg) \<Rightarrow> msg | _ \<Rightarrow> [])"
proof -
  let ?r = "\<lparr>status_code = 404, content = empty_soup\<rparr>"
  let ?w = "\<lparr>requests_get = (\<lambda>tr url h. Inr ?r), list_of_set = remdups\<rparr>"
  have s: "str_of_int 404 = ''404''"
    by (simp add: str_of_int_def str_of_nat.simps)
  from fetch_page_contract [of ?w "[]" "PStr URL" ?r]
  obtain msg where "snd (fetch_page ?w (PStr URL) []) = Inl (PyException msg)"
    "suffix (str_of_int 404) msg" by auto
  then show ?thesis by (simp add: s)
qed

text \<open>
  C8: with \<open>include_details\<close> false, a run of \<open>scrape_top_movies\<close> requests the list page
  and nothing else, takes no pause, and, when the list page arrives, returns the
  basic-extraction record of each entry it loops over, whether or not the entry has a
  detail URL (or the first error of a basic extraction).
\<close>

theorem no_detail_fetch_without_enrichment:
  "fetches (fst (scrape_top_movies w limit False tr)) = fetches tr @ [PStr URL]
   \<and> sleeps (fst (scrape_top_movies w limit False tr)) = sleeps tr
   \<and> (snd (fetch_page w (PStr URL) (tr @ [Print ''Fetching IMDb Top 250 list...''])) = Inr soup
        \<longrightarrow> snd (scrape_top_movies w limit False tr)
              = collect (map extract_basic_data (chosen limit (list_items soup))))"
  using scrape_top_movies_basic [of w limit tr] by simp

text \<open>C8 at the example list page, two of whose entries have a detail URL.\<close>

theorem no_detail_fetch_without_enrichment_witness:
  "snd (fetch_page list_world (PStr URL) [Print ''Fetching IMDb Top 250 list...'']) = Inr list_soup
   \<and> fetches (fst (scrape_top_movies list_world None False [])) = [PStr URL]
   \<and> sleeps (fst (scrape_top_movies list_world None False [])) = []
   \<and> map_sum id (map (\<lambda>d. map_of d ''detail_url''))
         (snd (scrape_top_movies list_world None False []))
       = Inr [Some (PStr ''https://www.imdb.com/title/tt0111161/''),
              Some (PStr ''https://www.imdb.com/title/tt0068646/''), Some PNone]"
  using no_detail_fetch_without_enrichment [of list_world None "[]" list_soup]
  by (simp add: list_world_page chosen_def list_world_urls)

text \<open>
  C9, as stated, fails: a name that contains the separator, here "Sammy Davis, Jr.",
  splits back into two names. (With no link at all the joined text is empty and splits
  back into one empty name.)
\<close>

theorem contributors_round_trip_counterexample:
  "map_sum id (\<lambda>d. map_of d ''actors'')
       (snd (extract_movie_details (credits_world [''Sammy Davis, Jr.''])
               (PStr ''https://www.imdb.com/title/tt0054135/'') []))
     = Inr (Some (PStr ''Sammy Davis, Jr.''))
   \<and> set (py_split '', '' ''Sammy Davis, Jr.'')
       \<noteq> set (actor_links (credits_soup [''Sammy Davis, Jr.'']))"
  by (simp add: extract_movie_details_eq fetch_page_def credits_world_def credits_soup_def
      py_split_sammy)

text \<open>
  C9, amended: in \<open>extract_movie_details\<close>, for each of the three roles with at least
  one matching link and no link text that contains ", ", the joined output, split back
  on ", ", holds each distinct link text exactly once, in the order the interpreter
  iterates over the set.
\<close>

theorem contributors_round_trip:
  "(\<forall>xs. distinct (list_of_set w xs) \<and> set (list_of_set w xs) = set xs)
   \<and> snd (fetch_page w u tr) = Inr soup
   \<and> (role, links) \<in> {(''directors'', director_links soup), (''writers'', writer_links soup),
                        (''actors'', actor_links soup)}
   \<and> links \<noteq> [] \<and> (\<forall>t \<in> set links. \<not> py_contains '', '' t)
   \<longrightarrow> (\<exists>d s. snd (extract_movie_details w u tr) = Inr d
              \<and> dict_get d role = Inr (PStr s)
              \<and> set (py_split '', '' s) = set links
              \<and> distinct (py_split '', '' s))"
proof (intro impI, elim conjE)
  assume los: "\<forall>xs. distinct (list_of_set w xs) \<and> set (list_of_set w xs) = set xs"
    and page: "snd (fetch_page w u tr) = Inr soup"
    and role: "(role, links) \<in> {(''directors'', director_links soup),
        (''writers'', writer_links soup), (''actors'', actor_links soup)}"
    and ne: "links \<noteq> []" and sep: "\<forall>t \<in> set links. \<not> py_contains '', '' t"
  define names where "names = list_of_set w links"
  from los have n: "distinct names" "set names = set links" by (simp_all add: names_def)
  with ne sep have "names \<noteq> []" "\<forall>t \<in> set names. \<not> py_contains '', '' t" by auto
  then have again: "py_split '', '' (py_join '', '' names) = names" by (rule py_split_join)
  from page obtain d where d: "snd (extract_movie_details w u tr) = Inr d"
    by (simp add: extract_movie_details_eq)
  with page role have "dict_get d role = Inr (PStr (py_join '', '' names))"
    by (auto simp: extract_movie_details_eq dict_get_def names_def)
  with d again n show "\<exists>d s. snd (extract_movie_details w u tr) = Inr d
              \<and> dict_get d role = Inr (PStr s)
              \<and> set (py_split '', '' s) = set links
              \<and> distinct (py_split '', '' s)"
    by auto
qed

text \<open>C9 at the example detail page, for its directors.\<close>

theorem contributors_round_trip_witness:
  "(\<forall>xs. distinct (list_of_set (credits_world []) xs)
          \<and> set (list_of_set (credits_world []) xs) = set xs)
   \<and> snd (fetch_page (credits_world []) (PStr []) []) = Inr (credits_soup [])
   \<and> director_links (credits_soup []) \<noteq> []
   \<and> (\<exists>d s. snd (extract_movie_details (credits_world []) (PStr []) []) = Inr d
          \<and> dict_get d ''directors'' = Inr (PStr s)
          \<and> set (py_split '', '' s) = {''Frank Darabont''}
          \<and> distinct (py_split '', '' s))"
proof -
  let ?w = "credits_world []"
  have 1: "\<forall>xs. distinct (list_of_set ?w xs) \<and> set (list_of_set ?w xs) = set xs"
    by (simp add: credits_world_def)
  have 2: "snd (fetch_page ?w (PStr []) []) = Inr (credits_soup [])"
    by (simp add: fetch_page_def credits_world_def)
  have 3: "director_links (credits_soup []) \<noteq> []"
    "\<forall>t \<in> set (director_links (credits_soup [])). \<not> py_contains '', '' t"
    "set (director_links (credits_soup [])) = {''Frank Darabont''}"
    by (simp_all add: credits_soup_def)
  from contributors_round_trip [of ?w "PStr []" "[]" "credits_soup []" "''directors''"
      "director_links (credits_soup [])"] 1 2 3
  have "\<exists>d s. snd (extract_movie_details ?w (PStr []) []) = Inr d
          \<and> dict_get d ''directors'' = Inr (PStr s)
          \<and> set (py_split '', '' s) = {''Frank Darabont''}
          \<and> distinct (py_split '', '' s)"
    by simp
  with 1 2 3 show ?thesis by blast
qed

text \<open>
  C10: the record of \<open>extract_basic_data\<close> has the six basic keys, that of
  \<open>extract_movie_details\<close> the six detail keys, and no key is in both; so merging the
  details into the basic record leaves every basic field as it was and adds the detail
  fields after them.
\<close>

theorem merge_keeps_basic_fields:
  "extract_basic_data e = Inr basic \<and> snd (extract_movie_details w u tr) = Inr details \<longrightarrow>
     map fst basic = [''title'', ''year'', ''rating'', ''votes'', ''image_url'', ''detail_url'']
     \<and> map fst details = [''genres'', ''duration'', ''directors'', ''writers'', ''actors'', ''plot'']
     \<and> set (map fst basic) \<inter> set (map fst details) = {}
     \<and> (\<forall>k \<in> set (map fst basic). map_of (dict_update basic details) k = map_of basic k)
     \<and> (\<forall>k \<in> set (map fst details). map_of (dict_update basic details) k = map_of details k)
     \<and> dict_update basic details = basic @ details"
  by (auto simp: extract_basic_data_eq extract_movie_details_eq dict_update_def
      split: sum.splits)

text \<open>C10 at the first example entry and the example detail page.\<close>

theorem merge_keeps_basic_fields_witness:
  "\<exists>basic details.
     extract_basic_data (entry ''1. Cadena perpetua'' (Some ''/title/tt0111161/?ref_=chttp_t_1''))
       = Inr basic
     \<and> snd (extract_movie_details (credits_world [''Tim Robbins''])
               (PStr ''https://www.imdb.com/title/tt0111161/'') []) = Inr details
     \<and> map_of (dict_update basic details) ''title'' = Some (PStr ''Cadena perpetua'')
     \<and> map_of (dict_update basic details) ''title'' = map_of basic ''title''
     \<and> map_of (dict_update basic details) ''detail_url'' = map_of basic ''detail_url''
     \<and> map_of (dict_update basic details) ''actors'' = Some (PStr ''Tim Robbins'')
     \<and> dict_update basic details = basic @ details"
proof -
  let ?e = "entry ''1. Cadena perpetua'' (Some ''/title/tt0111161/?ref_=chttp_t_1'')"
  let ?w = "credits_world [''Tim Robbins'']"
  let ?u = "PStr ''https://www.imdb.com/title/tt0111161/''"
  obtain basic where b: "extract_basic_data ?e = Inr basic"
    "map_of basic ''title'' = Some (PStr ''Cadena perpetua'')"
    by (simp add: extract_basic_data_entry clean_title_def py_split1_def)
  obtain details where d: "snd (extract_movie_details ?w ?u []) = Inr details"
    "map_of details ''actors'' = Some (PStr ''Tim Robbins'')"
    by (simp add: extract_movie_details_eq fetch_page_def credits_world_def credits_soup_def)
  from b(1) d(1) have both: "extract_basic_data ?e = Inr basic
      \<and> snd (extract_movie_details ?w ?u []) = Inr details"
    by (rule conjI)
  note all = merge_keeps_basic_fields [of ?e basic ?w ?u "[]" details, THEN mp, OF both]
  note keys_basic = all [THEN conjunct1]
  note keys_details = all [THEN conjunct2, THEN conjunct1]
  note kept = all [THEN conjunct2, THEN conjunct2, THEN conjunct2, THEN conjunct1]
  note added = all [THEN conjunct2, THEN conjunct2, THEN conjunct2, THEN conjunct2, THEN conjunct1]
  note merged = all [THEN conjunct2, THEN conjunct2, THEN conjunct2, THEN conjunct2, THEN conjunct2]
  from kept have "map_of (dict_update basic details) ''title'' = map_of basic ''title''"
    "map_of (dict_update basic details) ''detail_url'' = map_of basic ''detail_url''"
    unfolding keys_basic by simp_all
  moreover from added
  have "map_of (dict_update basic details) ''actors'' = map_of details ''actors''"
    unfolding keys_details by simp
  ultimately show ?thesis using b d merged by (intro exI [of _ basic] exI [of _ details]) simp
qed

end
